theory Spec2Isabelle
  imports Complex_Main "HOL-Library.Multiset" "HOL-Library.Code_Target_Nat"
begin

section \<open>JavaScript strings\<close>

text \<open>
  A JavaScript string is a sequence of UTF-16 code units. A code unit is modelled as a
  natural number (below \<open>0x10000\<close> for every real string); ASCII literals are written
  \<open>str ''...''\<close>. The five grid symbols of \<open>src/wordleAnalyzer.js\<close> are
  U+2B1B, U+2B1C (one code unit each) and U+1F7E8, U+1F7E9, U+1F7E6 (a surrogate pair each).
\<close>

type_synonym cu = nat
type_synonym jsstring = "cu list"

definition str :: "string \<Rightarrow> jsstring" where
  "str s = map of_char s"

definition isLead :: "cu \<Rightarrow> bool" where
  "isLead c = (0xD800 \<le> c \<and> c \<le> 0xDBFF)"

definition isTrail :: "cu \<Rightarrow> bool" where
  "isTrail c = (0xDC00 \<le> c \<and> c \<le> 0xDFFF)"

definition black :: jsstring where "black = [0x2B1B]"
definition white :: jsstring where "white = [0x2B1C]"
definition yellow :: jsstring where "yellow = [0xD83D, 0xDFE8]"
definition green :: jsstring where "green = [0xD83D, 0xDFE9]"
definition blue :: jsstring where "blue = [0xD83D, 0xDFE6]"

text \<open>\<open>[...line]\<close>: the string iterator yields one string per code point, a surrogate
  pair when a lead unit is followed by a trail unit and a single unit otherwise.\<close>

fun codePoints :: "jsstring \<Rightarrow> jsstring list" where
  "codePoints [] = []"
| "codePoints [a] = [[a]]"
| "codePoints (a # b # rest) =
     (if isLead a \<and> isTrail b then [a, b] # codePoints rest
      else [a] # codePoints (b # rest))"

text \<open>\<open>s.slice(b, e)\<close> for \<open>b \<le> e\<close>.\<close>

definition slice :: "jsstring \<Rightarrow> nat \<Rightarrow> nat \<Rightarrow> jsstring" where
  "slice s b e = take (e - b) (drop b s)"

text \<open>\<open>text.split(d)\<close> for a one-unit separator: always at least one piece.\<close>

fun split :: "cu \<Rightarrow> jsstring \<Rightarrow> jsstring list" where
  "split d [] = [[]]"
| "split d (x # xs) =
     (if x = d then [] # split d xs
      else (case split d xs of l # ls \<Rightarrow> (x # l) # ls | [] \<Rightarrow> [[x]]))"

text \<open>The white space of \<open>\s\<close> and of \<open>parseInt\<close>'s trimming (WhiteSpace and
  LineTerminator of ECMAScript), and the decimal digits of \<open>\d\<close>.\<close>

definition whitespace :: "cu \<Rightarrow> bool" where
  "whitespace ch =
     (ch \<in> set [0x9, 0xA, 0xB, 0xC, 0xD, 0x20, 0xA0, 0x1680, 0x2028, 0x2029, 0x202F,
                0x205F, 0x3000, 0xFEFF]
      \<or> (0x2000 \<le> ch \<and> ch \<le> 0x200A))"

definition digit :: "cu \<Rightarrow> bool" where
  "digit ch = (0x30 \<le> ch \<and> ch \<le> 0x39)"

text \<open>
  \<open>parseInt(s)\<close> with no radix: leading white space is skipped, a sign is read, a
  \<open>0x\<close> prefix selects radix 16, and the longest prefix of digits is the value;
  \<open>None\<close> is \<open>NaN\<close>. The value is the mathematical integer, which is what the
  JavaScript number holds below \<open>2^53\<close>.
\<close>

definition digitValue :: "cu \<Rightarrow> nat" where
  "digitValue ch =
     (if 0x30 \<le> ch \<and> ch \<le> 0x39 then ch - 0x30
      else if 0x61 \<le> ch \<and> ch \<le> 0x7A then ch - 0x61 + 10
      else if 0x41 \<le> ch \<and> ch \<le> 0x5A then ch - 0x41 + 10
      else 36)"

definition radixValue :: "nat \<Rightarrow> jsstring \<Rightarrow> nat" where
  "radixValue radix ds = foldl (\<lambda>acc ch. acc * radix + digitValue ch) 0 ds"

definition parseInt :: "jsstring \<Rightarrow> int option" where
  "parseInt s =
     (let t = dropWhile whitespace s;
          (neg, u) = (case t of
                        [] \<Rightarrow> (False, [])
                      | c # r \<Rightarrow> if c = 0x2D then (True, r)
                                 else if c = 0x2B then (False, r) else (False, t));
          (radix, v) = (case u of
                          a # b # r \<Rightarrow> if a = 0x30 \<and> (b = 0x78 \<or> b = 0x58) then (16, r)
                                       else (10, u)
                        | _ \<Rightarrow> (10, u));
          ds = takeWhile (\<lambda>ch. digitValue ch < radix) v
      in if ds = [] then None
         else Some ((if neg then - 1 else 1) * int (radixValue radix ds)))"

text \<open>Number to string for an integer (\<open>`${n}`\<close>, \<open>n.toString()\<close>), exact below
  \<open>10^21\<close>; \<open>NaN\<close> prints as \<open>NaN\<close>.\<close>

fun digitsOf :: "nat \<Rightarrow> jsstring" where
  "digitsOf n = (if n < 10 then [0x30 + n] else digitsOf (n div 10) @ [0x30 + n mod 10])"

declare digitsOf.simps [simp del]

definition numToString :: "int \<Rightarrow> jsstring" where
  "numToString i = (if i < 0 then 0x2D # digitsOf (nat (- i)) else digitsOf (nat i))"

definition numOptToString :: "int option \<Rightarrow> jsstring" where
  "numOptToString v = (case v of None \<Rightarrow> str ''NaN'' | Some i \<Rightarrow> numToString i)"

section \<open>Regular expressions\<close>

text \<open>
  A backtracking matcher for the fragment of ECMAScript regular expressions that
  \<open>wordlePattern\<close> uses: single code units, sequence, greedy bounded repetition and
  capturing groups. \<open>matches r s i c\<close> lists every way \<open>r\<close> can match \<open>s\<close> from index
  \<open>i\<close>, as end index and captures, in the order in which the backtracking engine tries
  them; the engine's answer is the head. An iteration of a \<open>{0,}\<close> repetition that
  consumes nothing is rejected, as RepeatMatcher does.
\<close>

datatype regex =
    Eps
  | Chr "cu \<Rightarrow> bool"
  | Seq regex regex
  | Repeat nat "nat option" regex
  | Group nat regex

type_synonym captures = "(nat \<times> nat \<times> nat) list"

function matches :: "regex \<Rightarrow> jsstring \<Rightarrow> nat \<Rightarrow> captures \<Rightarrow> (nat \<times> captures) list" where
  "matches Eps s i c = [(i, c)]"
| "matches (Chr p) s i c = (if i < length s \<and> p (s ! i) then [(Suc i, c)] else [])"
| "matches (Seq a b) s i c =
     concat (map (\<lambda>(j, c'). matches b s j c') (matches a s i c))"
| "matches (Group n r) s i c =
     map (\<lambda>(j, c'). (j, (n, i, j) # c')) (matches r s i c)"
| "matches (Repeat mn mx r) s i c =
     (if mx = Some 0 then [(i, c)]
      else concat (map (\<lambda>(j, c').
                     if i \<le> j \<and> j \<le> length s \<and> (0 < mn \<or> i < j)
                     then matches (Repeat (mn - 1) (map_option (\<lambda>m. m - 1) mx) r) s j c'
                     else [])
                   (matches r s i c))
           @ (if mn = 0 then [(i, c)] else []))"
  by pat_completeness auto
termination
  by (relation "measures [\<lambda>(r, s, i, c). size r,
                          \<lambda>(r, s, i, c). (case r of Repeat mn mx r' \<Rightarrow> mn | _ \<Rightarrow> 0)
                                          + (Suc (length s) - i)]")
     auto

text \<open>The search of \<open>RegExpBuiltinExec\<close> for a regular expression without the
  \<open>g\<close> and \<open>y\<close> flags: start indices \<open>0, 1, ..., length s\<close> in turn.\<close>

fun execFrom :: "regex \<Rightarrow> jsstring \<Rightarrow> nat list \<Rightarrow> (nat \<times> nat \<times> captures) option" where
  "execFrom r s [] = None"
| "execFrom r s (i # is) =
     (case matches r s i [] of
        [] \<Rightarrow> execFrom r s is
      | (e, c) # _ \<Rightarrow> Some (i, e, c))"

definition regexExec :: "regex \<Rightarrow> jsstring \<Rightarrow> (nat \<times> nat \<times> captures) option" where
  "regexExec r s = execFrom r s [0 ..< Suc (length s)]"

definition regexTest :: "regex \<Rightarrow> jsstring \<Rightarrow> bool" where
  "regexTest r s = (regexExec r s \<noteq> None)"

definition group :: "jsstring \<Rightarrow> captures \<Rightarrow> nat \<Rightarrow> jsstring" where
  "group s c n = (case map_of c n of None \<Rightarrow> [] | Some (b, e) \<Rightarrow> slice s b e)"

definition seqs :: "regex list \<Rightarrow> regex" where
  "seqs rs = foldr Seq rs Eps"

definition lit :: "char \<Rightarrow> regex" where
  "lit a = Chr (\<lambda>ch. ch = of_char a)"

text \<open>A letter under the \<open>i\<close> flag (without \<open>u\<close>): the code units whose upper case is
  the letter's upper case, which for an ASCII letter are its two cases.\<close>

definition lit_i :: "char \<Rightarrow> char \<Rightarrow> regex" where
  "lit_i a b = Chr (\<lambda>ch. ch = of_char a \<or> ch = of_char b)"

text \<open>\<open>/Wordle\s+(\d{1,4}(?:,\d{3})*)\s+([1-6X])\/6/i\<close>\<close>

definition wordlePattern :: regex where
  "wordlePattern =
     seqs [lit_i CHR ''W'' CHR ''w'', lit_i CHR ''o'' CHR ''O'', lit_i CHR ''r'' CHR ''R'',
           lit_i CHR ''d'' CHR ''D'', lit_i CHR ''l'' CHR ''L'', lit_i CHR ''e'' CHR ''E'',
           Repeat 1 None (Chr whitespace),
           Group 1 (Seq (Repeat 1 (Some 4) (Chr digit))
                        (Repeat 0 None (Seq (lit CHR '','') (Repeat 3 (Some 3) (Chr digit))))),
           Repeat 1 None (Chr whitespace),
           Group 2 (Chr (\<lambda>ch. (0x31 \<le> ch \<and> ch \<le> 0x36) \<or> ch = of_char CHR ''X''
                                \<or> ch = of_char CHR ''x'')),
           lit CHR ''/'', lit CHR ''6'']"

section \<open>The grid-symbol pattern and its \<open>lastIndex\<close>\<close>

text \<open>
  \<open>wordleEmojiPattern = /(\<dots>)/gu\<close> is one alternative of five code points. It carries the
  flags \<open>g\<close> and \<open>u\<close>: every \<open>test\<close> starts at the object's \<open>lastIndex\<close> and stores
  the end of the match there (0 after a failure), and indices advance by code points.
  \<open>lastIndex\<close> is the only mutable state of a \<open>WordleAnalyzer\<close>.
\<close>

record analyzer =
  emojiLastIndex :: nat

definition newAnalyzer :: analyzer where
  "newAnalyzer = \<lparr>emojiLastIndex = 0\<rparr>"

text \<open>The alternatives of the pattern, in its order, and the code point that starts
  at index \<open>i\<close>, as the string of its code units.\<close>

definition symbols :: "jsstring list" where
  "symbols = [black, white, yellow, green, blue]"

definition codePointAt :: "jsstring \<Rightarrow> nat \<Rightarrow> jsstring" where
  "codePointAt s i =
     (if isLead (s ! i) \<and> Suc i < length s \<and> isTrail (s ! Suc i)
      then [s ! i, s ! Suc i]
      else [s ! i])"

definition emojiMatchAt :: "jsstring \<Rightarrow> nat \<Rightarrow> nat option" where
  "emojiMatchAt s i =
     (if i < length s \<and> codePointAt s i \<in> set symbols
      then Some (i + length (codePointAt s i))
      else None)"

definition advanceStringIndex :: "jsstring \<Rightarrow> nat \<Rightarrow> nat" where
  "advanceStringIndex s i =
     (if length s \<le> Suc i then Suc i else i + length (codePointAt s i))"

text \<open>A start index inside a surrogate pair denotes the code point of that pair.\<close>

definition stepBack :: "jsstring \<Rightarrow> nat \<Rightarrow> nat" where
  "stepBack s i =
     (if 0 < i \<and> i < length s \<and> isLead (s ! (i - 1)) \<and> isTrail (s ! i) then i - 1 else i)"

function emojiExec :: "jsstring \<Rightarrow> nat \<Rightarrow> (nat \<times> nat) option" where
  "emojiExec s li =
     (if length s < li then None
      else (case emojiMatchAt s (stepBack s li) of
              Some e \<Rightarrow> Some (stepBack s li, e)
            | None \<Rightarrow> emojiExec s (advanceStringIndex s li)))"
  by pat_completeness auto
termination
  by (relation "measure (\<lambda>(s, li). Suc (length s) - li)")
     (auto simp: advanceStringIndex_def codePointAt_def)

declare emojiExec.simps [simp del]

lemma emojiExec_bounds:
  "emojiExec s li = Some (b, e) \<Longrightarrow> li < e \<and> e \<le> length s \<and> b < e"
proof (induction s li rule: emojiExec.induct)
  case (1 s li)
  show ?case
  proof (cases "emojiMatchAt s (stepBack s li)")
    case None
    with "1.prems" have "emojiExec s (advanceStringIndex s li) = Some (b, e)" "\<not> length s < li"
      by (auto simp: emojiExec.simps [of s li] split: if_splits)
    with "1.IH" None have "advanceStringIndex s li < e \<and> e \<le> length s \<and> b < e"
      by simp
    moreover have "li < advanceStringIndex s li"
      by (simp add: advanceStringIndex_def codePointAt_def)
    ultimately show ?thesis by simp
  next
    case (Some e')
    with "1.prems" have be: "b = stepBack s li" "e = e'" "\<not> length s < li"
      by (auto simp: emojiExec.simps [of s li] split: if_splits)
    from Some be show ?thesis
      by (auto simp: emojiMatchAt_def codePointAt_def stepBack_def split: if_splits)
  qed
qed

text \<open>\<open>[...line.matchAll(wordleEmojiPattern)].map(m => m[0])\<close>: \<open>matchAll\<close> works on a
  copy of the pattern that starts at the original's \<open>lastIndex\<close>; the original is left
  as it is.\<close>

function matchAllEmoji :: "jsstring \<Rightarrow> nat \<Rightarrow> jsstring list" where
  "matchAllEmoji s li =
     (case emojiExec s li of
        None \<Rightarrow> []
      | Some (b, e) \<Rightarrow> slice s b e # matchAllEmoji s e)"
  by pat_completeness auto
termination
  by (relation "measure (\<lambda>(s, li). Suc (length s) - li)")
     (auto dest: emojiExec_bounds)

declare matchAllEmoji.simps [simp del]

section \<open>Scorer\<close>

record score =
  baseScore :: int
  emojiPoints :: int
  totalScore :: int

definition baseScores :: "(jsstring \<times> int) list" where
  "baseScores =
     [(str ''1'', 600), (str ''2'', 500), (str ''3'', 400), (str ''4'', 300),
      (str ''5'', 200), (str ''6'', 100), (str ''X'', 0)]"

definition emojiPointsTable :: "(jsstring \<times> int) list" where
  "emojiPointsTable = [(green, 2), (yellow, 1), (black, 0), (white, 0), (blue, 0)]"

text \<open>\<open>table[key] || 0\<close>: a missing key reads \<open>undefined\<close>, which \<open>||\<close> turns into 0.
  Keys inherited from \<open>Object.prototype\<close> are not modelled: the labels that reach the
  lookup are one code unit long and the symbols one code point long.\<close>

definition lookupOrZero :: "(jsstring \<times> int) list \<Rightarrow> jsstring \<Rightarrow> int" where
  "lookupOrZero table k = (case map_of table k of None \<Rightarrow> 0 | Some v \<Rightarrow> v)"

definition calculateScore :: "jsstring \<Rightarrow> jsstring list \<Rightarrow> score" where
  "calculateScore attemptsStr pattern =
     (let base = lookupOrZero baseScores attemptsStr;
          points = fold (\<lambda>line acc.
                           fold (\<lambda>emoji acc'. acc' + lookupOrZero emojiPointsTable emoji)
                                (codePoints line) acc)
                        pattern 0
      in \<lparr>baseScore = base, emojiPoints = points, totalScore = base + points\<rparr>)"

section \<open>Pattern recognizer and result parser\<close>

definition emojiTest :: "analyzer \<Rightarrow> jsstring \<Rightarrow> bool \<times> analyzer" where
  "emojiTest st s =
     (case emojiExec s (emojiLastIndex st) of
        None \<Rightarrow> (False, st\<lparr>emojiLastIndex := 0\<rparr>)
      | Some (b, e) \<Rightarrow> (True, st\<lparr>emojiLastIndex := e\<rparr>))"

text \<open>\<open>wordlePattern.test(text) && wordleEmojiPattern.test(text)\<close>: the second test
  runs only when the first succeeds.\<close>

definition isWordleResult :: "analyzer \<Rightarrow> jsstring \<Rightarrow> bool \<times> analyzer" where
  "isWordleResult st text =
     (if regexTest wordlePattern text then emojiTest st text else (False, st))"

definition extractEmojisFromLine :: "analyzer \<Rightarrow> jsstring \<Rightarrow> jsstring list \<times> analyzer" where
  "extractEmojisFromLine st line =
     (let st' = st\<lparr>emojiLastIndex := 0\<rparr>
      in (matchAllEmoji line (emojiLastIndex st'), st'))"

record wordleResult =
  gameNumber :: "int option"
  attempts :: "int option"
  actualAttempts :: jsstring
  solved :: bool
  pattern :: "jsstring list"
  score :: score
  rawText :: jsstring

fun collectPatternLines ::
  "analyzer \<Rightarrow> jsstring list \<Rightarrow> jsstring list \<Rightarrow> jsstring list \<times> analyzer" where
  "collectPatternLines st [] patternLines = (patternLines, st)"
| "collectPatternLines st (line # lines) patternLines =
     (let (emojis, st') = extractEmojisFromLine st line
      in collectPatternLines st' lines
           (if length emojis = 5 then patternLines @ [concat emojis] else patternLines))"

definition parseWordleResult :: "analyzer \<Rightarrow> jsstring \<Rightarrow> wordleResult option \<times> analyzer" where
  "parseWordleResult st text =
     (case regexExec wordlePattern text of
        None \<Rightarrow> (None, st)
      | Some (index, end, caps) \<Rightarrow>
          (let gameNumberStr = filter (\<lambda>ch. ch \<noteq> of_char CHR '','') (group text caps 1);
               attemptsStr = group text caps 2;
               attemptsNum = (if attemptsStr = str ''X'' then Some 7 else parseInt attemptsStr);
               isSolved = (attemptsStr \<noteq> str ''X'');
               (patternLines, st') = collectPatternLines st (split 0xA text) []
           in if length patternLines = 0 then (None, st')
              else (Some \<lparr>gameNumber = parseInt gameNumberStr,
                           attempts = (if isSolved then attemptsNum else Some 6),
                           actualAttempts = attemptsStr,
                           solved = isSolved,
                           pattern = patternLines,
                           score = calculateScore attemptsStr patternLines,
                           rawText = text\<rparr>, st')))"

section \<open>Stored results\<close>

text \<open>\<open>src/index.js\<close> stores each parsed result with the player's name, the day and
  the arrival time (\<open>resultWithPlayer\<close>); these are the elements of the sequences that
  the aggregation and the leaderboard receive.\<close>

record scoredResult = wordleResult +
  player :: jsstring
  date :: jsstring
  timestamp :: nat

definition resultWithPlayer :: "wordleResult \<Rightarrow> jsstring \<Rightarrow> jsstring \<Rightarrow> nat \<Rightarrow> scoredResult" where
  "resultWithPlayer result sender day now =
     \<lparr>gameNumber = gameNumber result, attempts = attempts result,
      actualAttempts = actualAttempts result, solved = solved result,
      pattern = pattern result, score = score result, rawText = rawText result,
      player = sender, date = day, timestamp = now\<rparr>"

section \<open>Stats aggregator\<close>

text \<open>
  \<open>getPlayerStats\<close>. The histogram is an object keyed by property names (strings) whose
  values are numbers; \<open>None\<close> as a value is \<open>NaN\<close>, which \<open>distribution[k]++\<close>
  stores when the key is missing or already \<open>NaN\<close>. A stored result always has a
  \<open>score\<close> object, so the guard \<open>if (result.score)\<close> always passes. The averages are
  computed on rationals; the rounding of IEEE doubles is not modelled. The field
  \<open>totalScore\<close> of the statistics is named \<open>totalScore_stats\<close>, since \<open>totalScore\<close> is
  the field of \<open>score\<close>.
\<close>

record playerStats =
  totalGames :: nat
  solvedGames :: nat
  solveRate :: rat
  averageAttempts :: "rat option"
  averageScore :: rat
  totalScore_stats :: int
  distribution :: "jsstring \<rightharpoonup> nat option"

definition increment :: "(jsstring \<rightharpoonup> nat option) \<Rightarrow> jsstring \<Rightarrow> (jsstring \<rightharpoonup> nat option)" where
  "increment d k = d(k \<mapsto> (case d k of Some (Some n) \<Rightarrow> Some (n + 1) | _ \<Rightarrow> None))"

definition addAttempts :: "int option \<Rightarrow> scoredResult \<Rightarrow> int option" where
  "addAttempts acc r =
     (case acc of None \<Rightarrow> None
      | Some a \<Rightarrow> (case attempts r of None \<Rightarrow> None | Some n \<Rightarrow> Some (a + n)))"

definition getPlayerStats :: "scoredResult list \<Rightarrow> playerStats" where
  "getPlayerStats results =
     (if length results = 0
      then \<lparr>totalGames = 0, solvedGames = 0, solveRate = 0, averageAttempts = Some 0,
            averageScore = 0, totalScore_stats = 0, distribution = Map.empty\<rparr>
      else
        (let solvedResults = filter solved results;
             distribution0 = map_of [(str ''1'', Some 0), (str ''2'', Some 0), (str ''3'', Some 0),
                                     (str ''4'', Some 0), (str ''5'', Some 0), (str ''6'', Some 0),
                                     (str ''X'', Some 0)];
             (distribution1, total) =
                fold (\<lambda>result (d, t).
                        (if solved result then increment d (numOptToString (attempts result))
                         else increment d (str ''X''),
                         t + totalScore (score result)))
                     results (distribution0, 0)
         in \<lparr>totalGames = length results,
             solvedGames = length solvedResults,
             solveRate = (of_nat (length solvedResults) / of_nat (length results)) * 100,
             averageAttempts =
               (if length solvedResults > 0
                then map_option (\<lambda>total. of_int total / of_nat (length solvedResults))
                       (foldl addAttempts (Some 0) solvedResults)
                else Some 0),
             averageScore = (if length results > 0 then of_int total / of_nat (length results) else 0),
             totalScore_stats = total,
             distribution = distribution1\<rparr>))"

section \<open>Leaderboard builder\<close>

text \<open>
  \<open>Array.prototype.sort\<close> sorts the array in place and is stable; for a comparator
  that is a consistent ordering the result is the one arrangement that is ordered by the
  comparator and keeps equal elements in their original order, which stable insertion
  computes. \<open>generateGameLeaderboard\<close> returns the text together with the caller's
  array as the call leaves it. The header reads \<open>gameResults[0]\<close> after the sort; the
  array is not empty there, so the empty case of \<open>leaderboardHeader\<close> is never reached.
\<close>

definition compareResults :: "scoredResult \<Rightarrow> scoredResult \<Rightarrow> int" where
  "compareResults a b =
     (if totalScore (score b) \<noteq> totalScore (score a)
      then totalScore (score b) - totalScore (score a)
      else baseScore (score b) - baseScore (score a))"

fun insertSorted :: "('a \<Rightarrow> 'a \<Rightarrow> int) \<Rightarrow> 'a \<Rightarrow> 'a list \<Rightarrow> 'a list" where
  "insertSorted cmp x [] = [x]"
| "insertSorted cmp x (y # ys) =
     (if cmp x y \<le> 0 then x # y # ys else y # insertSorted cmp x ys)"

definition arraySort :: "('a \<Rightarrow> 'a \<Rightarrow> int) \<Rightarrow> 'a list \<Rightarrow> 'a list" where
  "arraySort cmp xs = foldr (insertSorted cmp) xs []"

text \<open>The rank label of an entry: the medals U+1F947, U+1F948, U+1F949 for the ranks
  1, 2, 3 and the decimal rank followed by a full stop for every other rank.\<close>

definition medal :: "nat \<Rightarrow> jsstring" where
  "medal rank =
     (if rank = 1 then [0xD83E, 0xDD47]
      else if rank = 2 then [0xD83E, 0xDD48]
      else if rank = 3 then [0xD83E, 0xDD49]
      else numToString (int rank) @ str ''.'')"

definition renderEntry :: "nat \<Rightarrow> scoredResult \<Rightarrow> jsstring" where
  "renderEntry index result =
     (let rank = index + 1;
          attemptsText = (if solved result then numOptToString (attempts result) @ str ''/6''
                          else str ''X/6'')
      in medal rank @ str '' *'' @ player result @ str ''*'' @ [0xA]
         @ str ''   '' @ attemptsText @ str '' - '' @ numToString (totalScore (score result))
         @ str '' points'' @ [0xA]
         @ str ''   ('' @ numToString (baseScore (score result)) @ str '' base + ''
         @ numToString (emojiPoints (score result)) @ str '' emoji)'' @ [0xA, 0xA])"

fun renderEntries :: "nat \<Rightarrow> scoredResult list \<Rightarrow> jsstring" where
  "renderEntries index [] = []"
| "renderEntries index (result # rest) = renderEntry index result @ renderEntries (Suc index) rest"

definition sortedResults :: "scoredResult list \<Rightarrow> scoredResult list" where
  "sortedResults gameResults = arraySort compareResults gameResults"

definition leaderboardHeader :: "scoredResult list \<Rightarrow> jsstring" where
  "leaderboardHeader gameResults =
     [0xD83C, 0xDFC6] @ str '' *Wordle ''
     @ (case gameResults of [] \<Rightarrow> [] | first # _ \<Rightarrow> numOptToString (gameNumber first))
     @ str '' Leaderboard*'' @ [0xA, 0xA]"

definition generateGameLeaderboard :: "scoredResult list \<Rightarrow> jsstring \<times> scoredResult list" where
  "generateGameLeaderboard gameResults =
     (if length gameResults = 0 then (str ''No results for this game yet!'', gameResults)
      else (let gameResults' = sortedResults gameResults
            in (leaderboardHeader gameResults' @ renderEntries 0 gameResults', gameResults')))"

section \<open>Tournament period calculator\<close>

text \<open>
  A \<open>Date\<close> is an instant. It is modelled by its fields in local time: \<open>getFullYear\<close>,
  \<open>getMonth\<close>, \<open>getDate\<close> and the milliseconds since local midnight, in a time zone
  whose offset from UTC is fixed; \<open>None\<close> is an invalid date. \<open>new Date(y, m, d)\<close> is
  local midnight of the day; it maps the years 0 to 99 to 1900 to 1999, carries a month
  index outside 0..11 into the year, and rolls a day outside the month over into the
  neighbouring months. Changes of the offset (daylight saving) and the limits of the time
  value are not modelled. \<open>getCurrentTournamentId\<close> takes the reading of the clock,
  \<open>new Date()\<close>, as its argument.
\<close>

record jsDate =
  fullYear :: int
  monthIndex :: nat
  dayOfMonth :: nat
  msOfDay :: nat

datatype jsError = TypeError

definition isLeapYear :: "int \<Rightarrow> bool" where
  "isLeapYear y = (y mod 4 = 0 \<and> (y mod 400 = 0 \<or> y mod 100 \<noteq> 0))"

definition daysInMonth :: "int \<Rightarrow> nat \<Rightarrow> nat" where
  "daysInMonth y m =
     (if m = 1 then (if isLeapYear y then 29 else 28)
      else if m \<in> set [3, 5, 8, 10] then 30 else 31)"

function normalizeDay :: "int \<Rightarrow> nat \<Rightarrow> int \<Rightarrow> nat \<Rightarrow> jsDate" where
  "normalizeDay y m d ms =
     (if d < 1 then
        (let (y', m') = (if m = 0 then (y - 1, 11) else (y, m - 1))
         in normalizeDay y' m' (d + int (daysInMonth y' m')) ms)
      else if int (daysInMonth y m) < d then
        (let (y', m') = (if m = 11 then (y + 1, 0) else (y, m + 1))
         in normalizeDay y' m' (d - int (daysInMonth y m)) ms)
      else \<lparr>fullYear = y, monthIndex = m, dayOfMonth = nat d, msOfDay = ms\<rparr>)"
  by pat_completeness auto
termination
  by (relation "measure (\<lambda>(y, m, d, ms). if d < 1 then 32 + nat (1 - d) else nat d)")
     (auto simp: daysInMonth_def split: if_splits)

declare normalizeDay.simps [simp del]

definition newDate :: "int option \<Rightarrow> int option \<Rightarrow> int option \<Rightarrow> jsDate option" where
  "newDate year month day =
     (case year of None \<Rightarrow> None | Some y \<Rightarrow>
      (case month of None \<Rightarrow> None | Some m \<Rightarrow>
       (case day of None \<Rightarrow> None | Some d \<Rightarrow>
          (let yr = (if 0 \<le> y \<and> y \<le> 99 then 1900 + y else y)
           in Some (normalizeDay (yr + m div 12) (nat (m mod 12)) d 0)))))"

definition getDate :: "jsDate option \<Rightarrow> int option" where
  "getDate d = map_option (\<lambda>v. int (dayOfMonth v)) d"

definition padStart2 :: "jsstring \<Rightarrow> jsstring" where
  "padStart2 s = replicate (2 - length s) 0x30 @ s"

fun replaceFirst :: "cu \<Rightarrow> jsstring \<Rightarrow> jsstring" where
  "replaceFirst c [] = []"
| "replaceFirst c (x # xs) = (if x = c then xs else x # replaceFirst c xs)"

definition getCurrentTournamentId :: "jsDate \<Rightarrow> jsstring" where
  "getCurrentTournamentId now =
     (let year = fullYear now;
          month = int (monthIndex now) + 1;
          day = dayOfMonth now;
          tournamentInMonth = (if day \<le> 15 then 1 else 2)
      in numToString year @ str ''-'' @ padStart2 (numToString month) @ str ''-T''
         @ numToString tournamentInMonth)"

definition getTournamentDateRange :: "jsstring \<Rightarrow> jsError + (jsDate option \<times> jsDate option)" where
  "getTournamentDateRange tournamentId =
     (case split 0x2D tournamentId of
        year # month # tournamentPart # _ \<Rightarrow>
          (let tournamentNum = parseInt (replaceFirst 0x54 tournamentPart);
               monthNum = parseInt month;
               (startDay, endDay) =
                  (if tournamentNum = Some 1 then (Some 1, Some 15)
                   else (Some 16, getDate (newDate (parseInt year) monthNum (Some 0))));
               startDate = newDate (parseInt year) (map_option (\<lambda>m. m - 1) monthNum) startDay;
               endDate = newDate (parseInt year) (map_option (\<lambda>m. m - 1) monthNum) endDay
           in Inr (startDate, endDate))
      | _ \<Rightarrow> Inl TypeError)"

text \<open>
  \<open>a <= b\<close> on two Dates compares their time values; with one fixed offset that is the
  order of the local fields, the time of day last. A comparison with an invalid date is
  false.
\<close>

definition dateLE :: "jsDate \<Rightarrow> jsDate \<Rightarrow> bool" where
  "dateLE a b =
     (fullYear a < fullYear b
      \<or> (fullYear a = fullYear b
          \<and> (monthIndex a < monthIndex b
              \<or> (monthIndex a = monthIndex b
                  \<and> (dayOfMonth a < dayOfMonth b
                      \<or> (dayOfMonth a = dayOfMonth b \<and> msOfDay a \<le> msOfDay b))))))"

definition dateOptLE :: "jsDate option \<Rightarrow> jsDate option \<Rightarrow> bool" where
  "dateOptLE a b =
     (case a of None \<Rightarrow> False
      | Some x \<Rightarrow> (case b of None \<Rightarrow> False | Some y \<Rightarrow> dateLE x y))"

text \<open>
  \<open>new Date(dateStr)\<close> for a stored day \<open>YYYY-MM-DD\<close>, as \<open>src/index.js\<close> writes it with
  \<open>toLocaleDateString('en-CA')\<close>: a date-only string denotes midnight UTC of that day.
  \<open>utcOffset\<close> is local time minus UTC in minutes (330 for UTC+05:30), between -1440
  and 1440. A string that is not a valid day of this form is read by rules of the
  engine that are not modelled; it yields \<open>None\<close> here.
\<close>

definition newDateFromString :: "int \<Rightarrow> jsstring \<Rightarrow> jsDate option" where
  "newDateFromString utcOffset dateStr =
     (case split 0x2D dateStr of
        [y, m, d] \<Rightarrow>
          (if length y = 4 \<and> length m = 2 \<and> length d = 2 \<and> list_all digit (y @ m @ d)
              \<and> 1 \<le> radixValue 10 m \<and> radixValue 10 m \<le> 12 \<and> 1 \<le> radixValue 10 d
              \<and> radixValue 10 d
                    \<le> daysInMonth (int (radixValue 10 y)) (radixValue 10 m - 1)
           then Some (if 0 \<le> utcOffset
                      then normalizeDay (int (radixValue 10 y)) (radixValue 10 m - 1)
                             (int (radixValue 10 d)) (nat utcOffset * 60000)
                      else normalizeDay (int (radixValue 10 y)) (radixValue 10 m - 1)
                             (int (radixValue 10 d) - 1)
                             (86400000 - nat (- utcOffset) * 60000))
           else None)
      | _ \<Rightarrow> None)"

text \<open>The test of \<open>getTournamentResults\<close> in \<open>src/googleSheetsDB.js\<close> that decides
  whether a stored day belongs to a period:
  \<open>resultDate >= startDate && resultDate <= endDate\<close>.\<close>

definition resultDateInRange ::
  "int \<Rightarrow> jsstring \<Rightarrow> jsDate option \<Rightarrow> jsDate option \<Rightarrow> bool" where
  "resultDateInRange utcOffset dateStr startDate endDate =
     (let resultDate = newDateFromString utcOffset dateStr
      in dateOptLE startDate resultDate \<and> dateOptLE resultDate endDate)"

section \<open>Inputs used in the theorems\<close>

text \<open>The end-to-end example of the specification: the header \<open>Wordle 1,234 4/6\<close>, an
  empty line and four rows.\<close>

definition exampleText :: jsstring where
  "exampleText = str ''Wordle 1,234 4/6'' @ [0xA, 0xA]
     @ black @ yellow @ black @ black @ black @ [0xA]
     @ black @ black @ green @ yellow @ black @ [0xA]
     @ yellow @ green @ green @ black @ green @ [0xA]
     @ green @ green @ green @ green @ green"

definition exampleGrid :: "jsstring list" where
  "exampleGrid =
     [black @ yellow @ black @ black @ black,
      black @ black @ green @ yellow @ black,
      yellow @ green @ green @ black @ green,
      green @ green @ green @ green @ green]"

definition exampleResult :: wordleResult where
  "exampleResult =
     \<lparr>gameNumber = Some 1234, attempts = Some 4, actualAttempts = str ''4'',
      solved = True, pattern = exampleGrid,
      score = \<lparr>baseScore = 300, emojiPoints = 21, totalScore = 321\<rparr>,
      rawText = exampleText\<rparr>"

text \<open>A header followed by seven rows, a failed game, a bare header, a message with a
  remark before the header, a one-guess result, and a header with a single symbol.\<close>

definition sevenRowText :: jsstring where
  "sevenRowText = str ''Wordle 1,234 6/6'' @ [0xA]
     @ concat (replicate 7 (0xA # black @ black @ yellow @ black @ black))"

definition failedText :: jsstring where
  "failedText = str ''Wordle 1,234 X/6'' @ [0xA, 0xA] @ black @ yellow @ black @ black @ black"

definition failedResult :: wordleResult where
  "failedResult =
     \<lparr>gameNumber = Some 1234, attempts = Some 6, actualAttempts = str ''X'',
      solved = False, pattern = [black @ yellow @ black @ black @ black],
      score = \<lparr>baseScore = 0, emojiPoints = 1, totalScore = 1\<rparr>,
      rawText = failedText\<rparr>"

definition headerOnlyText :: jsstring where
  "headerOnlyText = str ''Wordle 1,234 4/6''"

definition earlierText :: jsstring where
  "earlierText = str ''Got it today! '' @ exampleText"

definition laterText :: jsstring where
  "laterText = str ''Wordle 1,235 1/6'' @ [0xA, 0xA] @ green @ green @ green @ green @ green"

definition oneSymbolText :: jsstring where
  "oneSymbolText = str ''Wordle 1,234 4/6 '' @ green"

text \<open>Four stored results of one game, two solved with equal scores and two failed
  with equal scores, and the leaderboard text for them; and noon of 29 February 2024.\<close>

definition alice :: scoredResult where
  "alice = resultWithPlayer exampleResult (str ''alice'') (str ''2024-02-29'') 1"

definition bob :: scoredResult where
  "bob = resultWithPlayer exampleResult (str ''bob'') (str ''2024-02-29'') 2"

definition carol :: scoredResult where
  "carol = resultWithPlayer failedResult (str ''carol'') (str ''2024-02-29'') 3"

definition dave :: scoredResult where
  "dave = resultWithPlayer failedResult (str ''dave'') (str ''2024-02-29'') 4"

definition expectedLeaderboard :: jsstring where
  "expectedLeaderboard =
     [0xD83C, 0xDFC6] @ str '' *Wordle 1234 Leaderboard*'' @ [0xA, 0xA]
     @ [0xD83E, 0xDD47] @ str '' *alice*'' @ [0xA]
     @ str ''   4/6 - 321 points'' @ [0xA] @ str ''   (300 base + 21 emoji)'' @ [0xA, 0xA]
     @ [0xD83E, 0xDD48] @ str '' *bob*'' @ [0xA]
     @ str ''   4/6 - 321 points'' @ [0xA] @ str ''   (300 base + 21 emoji)'' @ [0xA, 0xA]
     @ [0xD83E, 0xDD49] @ str '' *carol*'' @ [0xA]
     @ str ''   X/6 - 1 points'' @ [0xA] @ str ''   (0 base + 1 emoji)'' @ [0xA, 0xA]
     @ str ''4. *dave*'' @ [0xA]
     @ str ''   X/6 - 1 points'' @ [0xA] @ str ''   (0 base + 1 emoji)'' @ [0xA, 0xA]"

definition leapDayNoon :: jsDate where
  "leapDayNoon = \<lparr>fullYear = 2024, monthIndex = 1, dayOfMonth = 29, msOfDay = 43200000\<rparr>"

section \<open>Scorer: lemmas\<close>

text \<open>The points of one row, and the rows that the parser's loop retains, as closed
  forms of the two loops.\<close>

definition rowPoints :: "jsstring \<Rightarrow> int" where
  "rowPoints line = sum_list (map (lookupOrZero emojiPointsTable) (codePoints line))"

definition retainedRows :: "jsstring list \<Rightarrow> jsstring list" where
  "retainedRows lines =
     map concat (filter (\<lambda>emojis. length emojis = 5)
                        (map (\<lambda>line. matchAllEmoji line 0) lines))"

lemma fold_add_sum:
  "fold (\<lambda>e acc. acc + f e) xs (a::int) = a + sum_list (map f xs)"
  by (induction xs arbitrary: a) simp_all

lemma symbol_points_range:
  "0 \<le> lookupOrZero emojiPointsTable e \<and> lookupOrZero emojiPointsTable e \<le> 2"
  by (simp add: lookupOrZero_def emojiPointsTable_def)

lemma row_points_range:
  "0 \<le> sum_list (map (lookupOrZero emojiPointsTable) es)
   \<and> sum_list (map (lookupOrZero emojiPointsTable) es) \<le> 2 * int (length es)"
proof (induction es)
  case Nil
  show ?case by simp
next
  case (Cons e es)
  with symbol_points_range [of e] show ?case by simp
qed

lemma emojiPoints_sum:
  "emojiPoints (calculateScore a grid) = sum_list (map rowPoints grid)"
proof -
  have "fold (\<lambda>line acc. fold (\<lambda>emoji acc'. acc' + lookupOrZero emojiPointsTable emoji)
                                (codePoints line) acc) grid a0
        = a0 + sum_list (map rowPoints grid)" for a0
    by (induction grid arbitrary: a0) (simp_all add: fold_add_sum rowPoints_def)
  then show ?thesis by (simp add: calculateScore_def Let_def)
qed

lemma grid_points_range:
  "\<forall>row \<in> set grid. length (codePoints row) = 5 \<Longrightarrow>
   0 \<le> sum_list (map rowPoints grid) \<and> sum_list (map rowPoints grid) \<le> 10 * int (length grid)"
proof (induction grid)
  case Nil
  show ?case by simp
next
  case (Cons row grid)
  then have "length (codePoints row) = 5" by simp
  with row_points_range [of "codePoints row"]
  have "0 \<le> rowPoints row \<and> rowPoints row \<le> 10" by (simp add: rowPoints_def)
  with Cons show ?case by simp
qed

lemma baseScore_calculateScore:
  "baseScore (calculateScore a grid) = lookupOrZero baseScores a"
  by (simp add: calculateScore_def Let_def)

section \<open>Parser: lemmas\<close>

lemma codePoints_single: "\<not> isLead a \<Longrightarrow> codePoints (a # xs) = [a] # codePoints xs"
  by (cases xs) simp_all

lemma codePoints_symbol:
  "e \<in> set symbols \<Longrightarrow> codePoints (e @ xs) = e # codePoints xs"
  by (auto simp: symbols_def black_def white_def yellow_def green_def blue_def
                 codePoints_single isLead_def isTrail_def)

lemma codePoints_concat_symbols:
  "set es \<subseteq> set symbols \<Longrightarrow> codePoints (concat es) = es"
  by (induction es) (simp_all add: codePoints_symbol)

lemma slice_codePointAt:
  "b < length s \<Longrightarrow> slice s b (b + length (codePointAt s b)) = codePointAt s b"
  by (auto simp: slice_def codePointAt_def take_Suc_conv_app_nth Cons_nth_drop_Suc [symmetric])

lemma emojiExec_symbol:
  "emojiExec s li = Some (b, e) \<Longrightarrow> slice s b e \<in> set symbols"
proof (induction s li rule: emojiExec.induct)
  case (1 s li)
  show ?case
  proof (cases "emojiMatchAt s (stepBack s li)")
    case None
    with "1.prems" have "emojiExec s (advanceStringIndex s li) = Some (b, e)" "\<not> length s < li"
      by (auto simp: emojiExec.simps [of s li] split: if_splits)
    with "1.IH" None show ?thesis by simp
  next
    case (Some e')
    with "1.prems" have be: "b = stepBack s li" "e = e'"
      by (auto simp: emojiExec.simps [of s li] split: if_splits)
    from Some be have "b < length s" "codePointAt s b \<in> set symbols"
      "e = b + length (codePointAt s b)"
      by (auto simp: emojiMatchAt_def split: if_splits)
    then show ?thesis by (simp add: slice_codePointAt)
  qed
qed

lemma matchAllEmoji_symbols: "set (matchAllEmoji s li) \<subseteq> set symbols"
proof (induction s li rule: matchAllEmoji.induct)
  case (1 s li)
  show ?case
  proof (cases "emojiExec s li")
    case None
    then show ?thesis by (simp add: matchAllEmoji.simps [of s li])
  next
    case (Some be)
    obtain b e where be: "be = (b, e)" by (cases be)
    with Some "1.IH" have "set (matchAllEmoji s e) \<subseteq> set symbols" by simp
    with Some be emojiExec_symbol [of s li b e] show ?thesis
      by (simp add: matchAllEmoji.simps [of s li])
  qed
qed

lemma extractEmojisFromLine_eq:
  "extractEmojisFromLine st line = (matchAllEmoji line 0, st\<lparr>emojiLastIndex := 0\<rparr>)"
  by (simp add: extractEmojisFromLine_def Let_def)

lemma collectPatternLines_eq:
  "collectPatternLines st lines acc =
     (acc @ retainedRows lines, if lines = [] then st else st\<lparr>emojiLastIndex := 0\<rparr>)"
  by (induction lines arbitrary: st acc)
     (simp_all add: retainedRows_def extractEmojisFromLine_eq)

lemma split_nonempty: "split d s \<noteq> []"
  by (induction s) (simp_all split: list.splits)

lemma retainedRows_wellformed:
  "row \<in> set (retainedRows lines) \<Longrightarrow>
     length (codePoints row) = 5 \<and> set (codePoints row) \<subseteq> set symbols"
proof -
  assume "row \<in> set (retainedRows lines)"
  then obtain line where row: "row = concat (matchAllEmoji line 0)"
    and len: "length (matchAllEmoji line 0) = 5"
    by (auto simp: retainedRows_def)
  have "codePoints row = matchAllEmoji line 0"
    unfolding row by (rule codePoints_concat_symbols) (rule matchAllEmoji_symbols)
  with len matchAllEmoji_symbols [of line 0] show ?thesis by simp
qed

lemma parseWordleResult_Some:
  assumes "parseWordleResult st text = (Some r, st')"
  shows "pattern r = retainedRows (split 0xA text) \<and> pattern r \<noteq> []
         \<and> st' = st\<lparr>emojiLastIndex := 0\<rparr>
         \<and> regexExec wordlePattern text \<noteq> None
         \<and> solved r = (actualAttempts r \<noteq> str ''X'')
         \<and> score r = calculateScore (actualAttempts r) (pattern r)"
  using assms
  by (auto simp: parseWordleResult_def collectPatternLines_eq split_nonempty Let_def
           split: option.splits if_splits prod.splits)

lemma parseWordleResult_no_rows:
  "retainedRows (split 0xA text) = [] \<Longrightarrow> fst (parseWordleResult st text) = None"
  by (auto simp: parseWordleResult_def collectPatternLines_eq Let_def
           split: option.splits prod.splits)

lemma parseWordleResult_state_free:
  "fst (parseWordleResult st text) = fst (parseWordleResult st0 text)"
  by (auto simp: parseWordleResult_def collectPatternLines_eq split_nonempty Let_def
           split: option.splits if_splits prod.splits)

lemma exampleText_parse:
  "parseWordleResult newAnalyzer exampleText = (Some exampleResult, newAnalyzer)"
  by code_simp

lemma failedText_parse:
  "parseWordleResult newAnalyzer failedText = (Some failedResult, newAnalyzer)"
  by code_simp

text \<open>
  With \<open>lastIndex = 0\<close> (a new analyzer, or any analyzer after \<open>parseWordleResult\<close>
  has read a header) the recognizer accepts every text that the parser parses: a line
  of the text is a segment of it, a symbol found in the line is found at the same place
  in the text, and the search from index 0 skips no symbol, since a symbol never starts
  with a trail surrogate.
\<close>

lemma split_first_prefix: "\<exists>l ls post. split d s = l # ls \<and> s = l @ post"
proof (induction s)
  case Nil
  show ?case by simp
next
  case (Cons x xs)
  then obtain l ls post where "split d xs = l # ls" "xs = l @ post" by blast
  then show ?case by (cases "x = d") auto
qed

lemma split_segment: "l \<in> set (split d s) \<Longrightarrow> \<exists>pre post. s = pre @ l @ post"
proof (induction s arbitrary: l)
  case Nil
  then show ?case by simp
next
  case (Cons x xs)
  obtain l0 ls post0 where sp: "split d xs = l0 # ls" and pre0: "xs = l0 @ post0"
    using split_first_prefix [of d xs] by blast
  show ?case
  proof (cases "x = d")
    case True
    with Cons.prems have "l = [] \<or> l \<in> set (split d xs)" by simp
    then show ?thesis
    proof
      assume "l = []"
      then have "x # xs = [] @ l @ (x # xs)" by simp
      then show ?thesis by blast
    next
      assume "l \<in> set (split d xs)"
      with Cons.IH obtain pre post where "xs = pre @ l @ post" by blast
      then have "x # xs = (x # pre) @ l @ post" by simp
      then show ?thesis by blast
    qed
  next
    case False
    with Cons.prems sp have "l = x # l0 \<or> l \<in> set ls" by simp
    then show ?thesis
    proof
      assume "l = x # l0"
      with pre0 have "x # xs = [] @ l @ post0" by simp
      then show ?thesis by blast
    next
      assume "l \<in> set ls"
      with sp have "l \<in> set (split d xs)" by simp
      with Cons.IH obtain pre post where "xs = pre @ l @ post" by blast
      then have "x # xs = (x # pre) @ l @ post" by simp
      then show ?thesis by blast
    qed
  qed
qed

lemma emojiMatchAt_start:
  "emojiMatchAt s i = Some e \<Longrightarrow> i < length s \<and> \<not> isTrail (s ! i)"
  by (auto simp: emojiMatchAt_def codePointAt_def symbols_def black_def white_def yellow_def
                 green_def blue_def isTrail_def split: if_splits)

lemma emojiExec_finds:
  "li \<le> i \<Longrightarrow> emojiMatchAt s i = Some e \<Longrightarrow> emojiExec s li \<noteq> None"
proof (induction s li rule: emojiExec.induct)
  case (1 s li)
  from "1.prems" emojiMatchAt_start [of s i e]
  have i: "i < length s" "\<not> isTrail (s ! i)" by simp_all
  with "1.prems" have li: "\<not> length s < li" by simp
  show ?case
  proof (cases "emojiMatchAt s (stepBack s li)")
    case (Some e')
    with li show ?thesis by (simp add: emojiExec.simps [of s li])
  next
    case None
    have "li \<noteq> i"
    proof
      assume "li = i"
      with i have "stepBack s li = i" by (simp add: stepBack_def)
      with None "1.prems" show False by simp
    qed
    with "1.prems" have lt: "li < i" by simp
    have "advanceStringIndex s li \<le> i"
    proof (cases "isLead (s ! li) \<and> Suc li < length s \<and> isTrail (s ! Suc li)")
      case True
      with i have "i \<noteq> Suc li" by auto
      with lt True i show ?thesis
        by (simp add: advanceStringIndex_def codePointAt_def)
    next
      case False
      with lt i show ?thesis
        by (auto simp: advanceStringIndex_def codePointAt_def)
    qed
    with "1.IH" [OF li None] "1.prems" have "emojiExec s (advanceStringIndex s li) \<noteq> None"
      by simp
    with li None show ?thesis by (simp add: emojiExec.simps [of s li])
  qed
qed

lemma emojiExec_match:
  "emojiExec s li = Some (b, e) \<Longrightarrow> emojiMatchAt s b = Some e"
proof (induction s li rule: emojiExec.induct)
  case (1 s li)
  show ?case
  proof (cases "emojiMatchAt s (stepBack s li)")
    case None
    with "1.prems" have "emojiExec s (advanceStringIndex s li) = Some (b, e)" "\<not> length s < li"
      by (auto simp: emojiExec.simps [of s li] split: if_splits)
    with "1.IH" None show ?thesis by simp
  next
    case (Some e')
    with "1.prems" show ?thesis
      by (auto simp: emojiExec.simps [of s li] split: if_splits)
  qed
qed

lemma emojiMatchAt_segment:
  assumes "emojiMatchAt l i = Some e"
  shows "emojiMatchAt (pre @ l @ post) (length pre + i) = Some (length pre + e)"
proof -
  from assms have i: "i < length l" and sym: "codePointAt l i \<in> set symbols"
    and e: "e = i + length (codePointAt l i)"
    by (auto simp: emojiMatchAt_def split: if_splits)
  have "codePointAt (pre @ l @ post) (length pre + i) = codePointAt l i"
    using i sym
    by (auto simp: codePointAt_def nth_append symbols_def black_def white_def yellow_def
                   green_def blue_def isLead_def isTrail_def split: if_splits)
  with i sym e show ?thesis by (simp add: emojiMatchAt_def)
qed

lemma recognizer_accepts_parseable_text_after_reset:
  assumes reset: "emojiLastIndex st0 = 0"
    and parsed: "fst (parseWordleResult st text) \<noteq> None"
  shows "fst (isWordleResult st0 text) = True"
proof -
  from parsed obtain r st' where p: "parseWordleResult st text = (Some r, st')"
    by (cases "parseWordleResult st text") auto
  from parseWordleResult_Some [OF p]
  have hdr: "regexExec wordlePattern text \<noteq> None"
    and rows: "retainedRows (split 0xA text) \<noteq> []"
    by auto
  from rows obtain line where line: "line \<in> set (split 0xA text)"
    and five: "length (matchAllEmoji line 0) = 5"
    by (auto simp: retainedRows_def filter_empty_conv)
  from five have "emojiExec line 0 \<noteq> None"
    by (auto simp: matchAllEmoji.simps [of line 0] split: option.splits)
  then obtain b e where "emojiExec line 0 = Some (b, e)" by auto
  then have m: "emojiMatchAt line b = Some e" by (rule emojiExec_match)
  from split_segment [OF line] obtain pre post where "text = pre @ line @ post" by blast
  with emojiMatchAt_segment [OF m, of pre post]
  have "emojiMatchAt text (length pre + b) = Some (length pre + e)" by simp
  from emojiExec_finds [OF _ this, of 0] have "emojiExec text 0 \<noteq> None" by simp
  with hdr reset show ?thesis
    by (auto simp: isWordleResult_def regexTest_def emojiTest_def split: option.splits)
qed

section \<open>Number strings: lemmas\<close>

lemma digit_props:
  "digit c \<Longrightarrow> \<not> whitespace c \<and> c \<noteq> 0x2D \<and> c \<noteq> 0x2B \<and> c \<noteq> 0x78 \<and> c \<noteq> 0x58
               \<and> digitValue c < 10 \<and> digitValue c = c - 0x30"
  by (auto simp: digit_def whitespace_def digitValue_def)

lemma parseInt_digits:
  assumes "ds \<noteq> []" and "\<forall>c \<in> set ds. digit c"
  shows "parseInt ds = Some (int (radixValue 10 ds))"
proof -
  from assms obtain c r where ds: "ds = c # r" by (cases ds) auto
  with assms have c: "digit c" by simp
  have tw: "takeWhile (\<lambda>ch. digitValue ch < 10) ds = ds"
    using assms(2) by (auto simp: takeWhile_eq_all_conv digit_def digitValue_def)
  show ?thesis
  proof (cases r)
    case Nil
    with ds c tw show ?thesis
      by (simp add: parseInt_def digit_props)
  next
    case (Cons b r')
    with ds assms have "digit b" by simp
    with Cons ds c tw show ?thesis
      by (simp add: parseInt_def digit_props)
  qed
qed

lemma digitValue_digit: "k < 10 \<Longrightarrow> digitValue (0x30 + k) = k"
  by (simp add: digitValue_def)

lemma radixValue_snoc:
  "radixValue radix (xs @ [c]) = radixValue radix xs * radix + digitValue c"
  by (simp add: radixValue_def)

lemma digitsOf_digit: "\<forall>c \<in> set (digitsOf n). digit c"
proof (induction n rule: digitsOf.induct)
  case (1 n)
  show ?case
  proof (cases "n < 10")
    case True
    then show ?thesis by (simp add: digitsOf.simps [of n] digit_def)
  next
    case False
    with 1 show ?thesis
      by (auto simp: digitsOf.simps [of n] digit_def)
  qed
qed

lemma digitsOf_nonempty: "digitsOf n \<noteq> []"
  by (simp add: digitsOf.simps [of n])

lemma radixValue_digitsOf: "radixValue 10 (digitsOf n) = n"
proof (induction n rule: digitsOf.induct)
  case (1 n)
  show ?case
  proof (cases "n < 10")
    case True
    then show ?thesis
      by (simp add: digitsOf.simps [of n] radixValue_def digitValue_digit)
  next
    case False
    with 1 have "radixValue 10 (digitsOf (n div 10)) = n div 10" by simp
    with False show ?thesis
      by (simp add: digitsOf.simps [of n] radixValue_snoc digitValue_digit)
  qed
qed

lemma parseInt_digitsOf: "parseInt (digitsOf n) = Some (int n)"
  using parseInt_digits [OF digitsOf_nonempty digitsOf_digit, of n]
  by (simp add: radixValue_digitsOf)

lemma digitsOf_one: "n < 10 \<Longrightarrow> digitsOf n = [0x30 + n]"
  by (simp add: digitsOf.simps [of n])

lemma digitsOf_two: "10 \<le> n \<Longrightarrow> n < 100 \<Longrightarrow> digitsOf n = [0x30 + n div 10, 0x30 + n mod 10]"
  by (simp add: digitsOf.simps [of n] digitsOf_one)

lemma digitsOf_three:
  "100 \<le> n \<Longrightarrow> n < 1000 \<Longrightarrow>
     digitsOf n = [0x30 + n div 100, 0x30 + n div 10 mod 10, 0x30 + n mod 10]"
  by (simp add: digitsOf.simps [of n] digitsOf_two div_mult2_eq [symmetric])

lemma digitsOf_four:
  "1000 \<le> n \<Longrightarrow> n < 10000 \<Longrightarrow>
     digitsOf n = [0x30 + n div 1000, 0x30 + n div 100 mod 10, 0x30 + n div 10 mod 10,
                   0x30 + n mod 10]"
  by (simp add: digitsOf.simps [of n] digitsOf_three div_mult2_eq [symmetric])

lemma digitsOf_inj: "digitsOf a = digitsOf b \<Longrightarrow> a = b"
  by (metis radixValue_digitsOf)

section \<open>Leaderboard: lemmas\<close>

text \<open>The leaderboard order: a higher total score first, and among equal total scores a
  higher base score first.\<close>

definition precedes :: "scoredResult \<Rightarrow> scoredResult \<Rightarrow> bool" where
  "precedes a b =
     (totalScore (score b) < totalScore (score a)
      \<or> (totalScore (score a) = totalScore (score b)
          \<and> baseScore (score b) \<le> baseScore (score a)))"

lemma compareResults_le: "compareResults a b \<le> 0 \<longleftrightarrow> precedes a b"
  by (auto simp: compareResults_def precedes_def)

lemma precedes_total: "precedes a b \<or> precedes b a"
  by (auto simp: precedes_def)

lemma precedes_trans: "precedes a b \<Longrightarrow> precedes b c \<Longrightarrow> precedes a c"
  by (auto simp: precedes_def)

lemma set_insertSorted: "set (insertSorted cmp x ys) = insert x (set ys)"
  by (induction ys) auto

lemma mset_insertSorted: "mset (insertSorted cmp x ys) = add_mset x (mset ys)"
  by (induction ys) simp_all

lemma mset_arraySort: "mset (arraySort cmp xs) = mset xs"
  by (induction xs) (simp_all add: arraySort_def mset_insertSorted)

lemma sorted_insertSorted:
  "sorted_wrt precedes ys \<Longrightarrow> sorted_wrt precedes (insertSorted compareResults x ys)"
proof (induction ys)
  case Nil
  show ?case by simp
next
  case (Cons y ys)
  show ?case
  proof (cases "compareResults x y \<le> 0")
    case True
    then have xy: "precedes x y" by (simp add: compareResults_le)
    have "precedes x z" if "z \<in> set ys" for z
      using Cons.prems that xy precedes_trans [of x y z] by simp
    with True xy Cons.prems show ?thesis by simp
  next
    case False
    then have "precedes y x"
      using precedes_total [of x y] by (simp add: compareResults_le)
    with False Cons show ?thesis
      by (auto simp: set_insertSorted)
  qed
qed

lemma sorted_sortedResults: "sorted_wrt precedes (sortedResults xs)"
  by (induction xs) (simp_all add: sortedResults_def arraySort_def sorted_insertSorted)

lemma filter_insertSorted_neg:
  "\<not> P x \<Longrightarrow> filter P (insertSorted cmp x ys) = filter P ys"
  by (induction ys) simp_all

lemma filter_insertSorted_pos:
  "P x \<Longrightarrow> (\<And>y. P y \<Longrightarrow> cmp x y \<le> 0) \<Longrightarrow>
     filter P (insertSorted cmp x ys) = x # filter P ys"
  by (induction ys) auto

lemma sortedResults_stable:
  "filter (\<lambda>r. totalScore (score r) = t \<and> baseScore (score r) = b) (sortedResults xs)
     = filter (\<lambda>r. totalScore (score r) = t \<and> baseScore (score r) = b) xs"
proof (induction xs)
  case Nil
  show ?case by (simp add: sortedResults_def arraySort_def)
next
  case (Cons x xs)
  let ?P = "\<lambda>r. totalScore (score r) = t \<and> baseScore (score r) = b"
  have step: "sortedResults (x # xs) = insertSorted compareResults x (sortedResults xs)"
    by (simp add: sortedResults_def arraySort_def)
  show ?case
  proof (cases "?P x")
    case False
    with Cons show ?thesis by (simp add: step filter_insertSorted_neg)
  next
    case True
    have "compareResults x y \<le> 0" if "?P y" for y
      using True that by (simp add: compareResults_def)
    with True have "filter ?P (insertSorted compareResults x (sortedResults xs))
                      = x # filter ?P (sortedResults xs)"
      by (intro filter_insertSorted_pos) simp_all
    with True Cons show ?thesis by (simp add: step)
  qed
qed

lemma sortedResults_sorted_id:
  "sorted_wrt precedes xs \<Longrightarrow> sortedResults xs = xs"
proof (induction xs)
  case Nil
  show ?case by (simp add: sortedResults_def arraySort_def)
next
  case (Cons x xs)
  then have IH: "sortedResults xs = xs" by simp
  have "insertSorted compareResults x xs = x # xs"
  proof (cases xs)
    case Nil
    then show ?thesis by simp
  next
    case (Cons y ys)
    with Cons.prems have "precedes x y" by simp
    with Cons show ?thesis by (simp add: compareResults_le)
  qed
  with IH show ?case by (simp add: sortedResults_def arraySort_def)
qed

lemma renderEntries_eq:
  "renderEntries k xs = concat (map (\<lambda>i. renderEntry (k + i) (xs ! i)) [0 ..< length xs])"
proof (induction xs arbitrary: k)
  case Nil
  show ?case by simp
next
  case (Cons x xs)
  have "[0 ..< length (x # xs)] = 0 # map Suc [0 ..< length xs]"
    by (simp add: upt_conv_Cons map_Suc_upt del: upt_Suc)
  then show ?case
    by (simp add: Cons.IH comp_def del: upt_Suc)
qed

lemma medal_top: "rank \<in> {1, 2, 3} \<Longrightarrow> medal rank = [0xD83E, 0xDD46 + rank]"
  by (auto simp: medal_def)

lemma medal_number:
  "rank \<notin> {1, 2, 3} \<Longrightarrow>
     medal rank = digitsOf rank @ [0x2E] \<and> (\<exists>c cs. medal rank = c # cs \<and> digit c)"
proof -
  assume r: "rank \<notin> {1, 2, 3}"
  then have m: "medal rank = digitsOf rank @ [0x2E]"
    by (simp add: medal_def numToString_def str_def)
  obtain c cs where cs: "digitsOf rank = c # cs"
    using digitsOf_nonempty [of rank] by (cases "digitsOf rank") auto
  with digitsOf_digit [of rank] have "digit c" by simp
  with m cs show ?thesis by simp
qed

lemma medal_inj: "medal a = medal b \<Longrightarrow> a = b"
proof -
  assume eq: "medal a = medal b"
  have nd: "\<not> digit 0xD83E" by (simp add: digit_def)
  show ?thesis
  proof (cases "a \<in> {1, 2, 3}")
    case True
    then have a: "medal a = [0xD83E, 0xDD46 + a]" by (rule medal_top)
    show ?thesis
    proof (cases "b \<in> {1, 2, 3}")
      case True
      then have "medal b = [0xD83E, 0xDD46 + b]" by (rule medal_top)
      with a eq have "[0xD83E, 0xDD46 + a] = [0xD83E, 0xDD46 + b]" by metis
      then show ?thesis by simp
    next
      case False
      then obtain c cs where "medal b = c # cs" "digit c"
        using medal_number [of b] by blast
      with a eq have "[0xD83E, 0xDD46 + a] = c # cs" by metis
      with \<open>digit c\<close> nd show ?thesis by simp
    qed
  next
    case False
    then have a: "medal a = digitsOf a @ [0x2E]"
      and "\<exists>c cs. medal a = c # cs \<and> digit c"
      using medal_number [of a] by blast+
    then obtain c cs where c: "medal a = c # cs" "digit c" by blast
    show ?thesis
    proof (cases "b \<in> {1, 2, 3}")
      case True
      then have "medal b = [0xD83E, 0xDD46 + b]" by (rule medal_top)
      with c eq have "[0xD83E, 0xDD46 + b] = c # cs" by metis
      with c nd show ?thesis by simp
    next
      case False
      then have "medal b = digitsOf b @ [0x2E]"
        using medal_number [of b] by blast
      with a eq have "digitsOf a @ [0x2E] = digitsOf b @ [0x2E]" by metis
      then have "digitsOf a = digitsOf b" by simp
      then show ?thesis by (rule digitsOf_inj)
    qed
  qed
qed


section \<open>Tournament periods: lemmas\<close>

lemma split_no_separator: "d \<notin> set xs \<Longrightarrow> split d xs = [xs]"
  by (induction xs) simp_all

lemma split_at_separator: "d \<notin> set xs \<Longrightarrow> split d (xs @ d # ys) = xs # split d ys"
  by (induction xs) simp_all

lemma digits_no_hyphen: "\<forall>c \<in> set xs. digit c \<Longrightarrow> 0x2D \<notin> set xs"
  by (auto simp: digit_def)

lemma padStart2_month:
  "m < 12 \<Longrightarrow> padStart2 (numToString (int m + 1)) = [0x30 + Suc m div 10, 0x30 + Suc m mod 10]"
proof -
  assume m: "m < 12"
  have n: "numToString (int m + 1) = digitsOf (Suc m)"
    by (simp add: numToString_def nat_add_distrib)
  show ?thesis
  proof (cases "Suc m < 10")
    case True
    then show ?thesis by (simp add: n digitsOf_one padStart2_def)
  next
    case False
    with m show ?thesis by (simp add: n digitsOf_two padStart2_def)
  qed
qed

lemma parseInt_month:
  "m < 12 \<Longrightarrow> parseInt [0x30 + Suc m div 10, 0x30 + Suc m mod 10] = Some (int m + 1)"
proof -
  assume m: "m < 12"
  then have "\<forall>c \<in> set [0x30 + Suc m div 10, 0x30 + Suc m mod 10]. digit c"
    by (auto simp: digit_def)
  from parseInt_digits [OF _ this] m show ?thesis
    by (simp add: radixValue_def digitValue_digit)
qed

lemma daysInMonth_bounds: "28 \<le> daysInMonth y m \<and> daysInMonth y m \<le> 31"
  by (simp add: daysInMonth_def)

lemma normalizeDay_in_month:
  "1 \<le> d \<Longrightarrow> d \<le> int (daysInMonth y m) \<Longrightarrow>
     normalizeDay y m d ms
       = \<lparr>fullYear = y, monthIndex = m, dayOfMonth = nat d, msOfDay = ms\<rparr>"
  by (simp add: normalizeDay.simps [of y m d ms])

lemma newDate_in_month:
  "100 \<le> y \<Longrightarrow> m < 12 \<Longrightarrow> 1 \<le> d \<Longrightarrow> d \<le> daysInMonth y m \<Longrightarrow>
     newDate (Some y) (Some (int m)) (Some (int d))
       = Some \<lparr>fullYear = y, monthIndex = m, dayOfMonth = d, msOfDay = 0\<rparr>"
  by (simp add: newDate_def normalizeDay_in_month)

lemma newDate_day_zero:
  assumes "100 \<le> y" and "m < 12"
  shows "newDate (Some y) (Some (int m + 1)) (Some 0)
           = Some \<lparr>fullYear = y, monthIndex = m, dayOfMonth = daysInMonth y m,
                   msOfDay = 0\<rparr>"
proof (cases "m = 11")
  case True
  have "normalizeDay (y + 1) 0 0 0 = normalizeDay y 11 (int (daysInMonth y 11)) 0"
    by (simp add: normalizeDay.simps [of "y + 1" 0 0 0])
  also have "\<dots> = \<lparr>fullYear = y, monthIndex = 11, dayOfMonth = daysInMonth y 11,
                       msOfDay = 0\<rparr>"
    using daysInMonth_bounds [of y 11] by (simp add: normalizeDay_in_month)
  finally show ?thesis using assms True by (simp add: newDate_def)
next
  case False
  with assms have m: "Suc m < 12" by simp
  then have md: "(int m + 1) div 12 = 0" "nat ((int m + 1) mod 12) = Suc m"
    "nat (int m + 1) = Suc m"
    by (simp_all add: nat_add_distrib)
  have "normalizeDay y (Suc m) 0 0 = normalizeDay y m (int (daysInMonth y m)) 0"
    by (simp add: normalizeDay.simps [of y "Suc m" 0 0])
  also have "\<dots> = \<lparr>fullYear = y, monthIndex = m, dayOfMonth = daysInMonth y m,
                       msOfDay = 0\<rparr>"
    using daysInMonth_bounds [of y m] by (simp add: normalizeDay_in_month)
  finally show ?thesis using assms md by (simp add: newDate_def)
qed


lemma tournamentId_format:
  assumes y: "1000 \<le> fullYear now" "fullYear now \<le> 9999" and m: "monthIndex now < 12"
  shows "getCurrentTournamentId now
           = digitsOf (nat (fullYear now)) @ 0x2D
             # [0x30 + Suc (monthIndex now) div 10, 0x30 + Suc (monthIndex now) mod 10]
             @ 0x2D # [0x54, if dayOfMonth now \<le> 15 then 0x31 else 0x32]"
  using y padStart2_month [OF m]
  by (simp add: getCurrentTournamentId_def Let_def numToString_def str_def digitsOf_one)

lemma tournamentId_split:
  assumes y: "1000 \<le> fullYear now" "fullYear now \<le> 9999" and m: "monthIndex now < 12"
  shows "split 0x2D (getCurrentTournamentId now)
           = [digitsOf (nat (fullYear now)),
              [0x30 + Suc (monthIndex now) div 10, 0x30 + Suc (monthIndex now) mod 10],
              [0x54, if dayOfMonth now \<le> 15 then 0x31 else 0x32]]"
proof -
  have a: "0x2D \<notin> set (digitsOf (nat (fullYear now)))"
    by (rule digits_no_hyphen) (rule digitsOf_digit)
  have b: "0x2D \<notin> set [0x30 + Suc (monthIndex now) div 10, 0x30 + Suc (monthIndex now) mod 10]"
    by simp
  have c: "0x2D \<notin> set [0x54, if dayOfMonth now \<le> 15 then 0x31 else (0x32::nat)]"
    by simp
  show ?thesis
    unfolding tournamentId_format [OF assms]
    by (simp only: split_at_separator [OF a] split_at_separator [OF b]
                   split_no_separator [OF c])
qed

lemma parseInt_half: "parseInt [0x31] = Some 1" "parseInt [0x32] = Some 2"
  by (simp_all add: parseInt_def whitespace_def digitValue_def radixValue_def)


text \<open>
  What the two functions compute for a clock reading in a year of four digits: the
  identifier, the two ends of the range as local midnights, and when the reading lies in
  the range: always after its start, and up to its end only before the last day of the
  period or exactly at that day's midnight.
\<close>

lemma tournament_range_fields:
  assumes y: "1000 \<le> fullYear now" "fullYear now \<le> 9999"
    and m: "monthIndex now < 12"
    and d: "1 \<le> dayOfMonth now" "dayOfMonth now \<le> daysInMonth (fullYear now) (monthIndex now)"
  shows "getCurrentTournamentId now
           = [0x30 + nat (fullYear now) div 1000, 0x30 + nat (fullYear now) div 100 mod 10,
              0x30 + nat (fullYear now) div 10 mod 10, 0x30 + nat (fullYear now) mod 10]
             @ str ''-''
             @ [0x30 + Suc (monthIndex now) div 10, 0x30 + Suc (monthIndex now) mod 10]
             @ str ''-T'' @ (if dayOfMonth now \<le> 15 then str ''1'' else str ''2'')
         \<and> getTournamentDateRange (getCurrentTournamentId now)
             = Inr (Some \<lparr>fullYear = fullYear now, monthIndex = monthIndex now,
                            dayOfMonth = (if dayOfMonth now \<le> 15 then 1 else 16),
                            msOfDay = 0\<rparr>,
                    Some \<lparr>fullYear = fullYear now, monthIndex = monthIndex now,
                            dayOfMonth = (if dayOfMonth now \<le> 15 then 15
                                          else daysInMonth (fullYear now) (monthIndex now)),
                            msOfDay = 0\<rparr>)
         \<and> dateLE \<lparr>fullYear = fullYear now, monthIndex = monthIndex now,
                     dayOfMonth = (if dayOfMonth now \<le> 15 then 1 else 16),
                     msOfDay = 0\<rparr> now
         \<and> (dateLE now \<lparr>fullYear = fullYear now, monthIndex = monthIndex now,
                          dayOfMonth = (if dayOfMonth now \<le> 15 then 15
                                        else daysInMonth (fullYear now) (monthIndex now)),
                          msOfDay = 0\<rparr>
              \<longleftrightarrow> dayOfMonth now < (if dayOfMonth now \<le> 15 then 15
                                     else daysInMonth (fullYear now) (monthIndex now))
                  \<or> msOfDay now = 0)"
proof -
  let ?Y = "fullYear now" and ?M = "monthIndex now" and ?D = "dayOfMonth now"
  from y have y4: "1000 \<le> nat ?Y" "nat ?Y < 10000" by simp_all
  have fmt: "getCurrentTournamentId now
           = [0x30 + nat ?Y div 1000, 0x30 + nat ?Y div 100 mod 10,
              0x30 + nat ?Y div 10 mod 10, 0x30 + nat ?Y mod 10]
             @ str ''-'' @ [0x30 + Suc ?M div 10, 0x30 + Suc ?M mod 10]
             @ str ''-T'' @ (if ?D \<le> 15 then str ''1'' else str ''2'')"
    by (simp add: tournamentId_format [OF y m] digitsOf_four [OF y4] str_def)
  have py: "parseInt (digitsOf (nat ?Y)) = Some ?Y"
    using y by (simp add: parseInt_digitsOf)
  have y100: "100 \<le> ?Y" using y by simp
  have dim: "28 \<le> daysInMonth ?Y ?M" "daysInMonth ?Y ?M \<le> 31"
    using daysInMonth_bounds [of ?Y ?M] by simp_all
  have s1: "newDate (Some ?Y) (Some (int ?M)) (Some 1)
              = Some \<lparr>fullYear = ?Y, monthIndex = ?M, dayOfMonth = 1, msOfDay = 0\<rparr>"
    using newDate_in_month [OF y100 m, of 1] dim by simp
  have s15: "newDate (Some ?Y) (Some (int ?M)) (Some 15)
              = Some \<lparr>fullYear = ?Y, monthIndex = ?M, dayOfMonth = 15, msOfDay = 0\<rparr>"
    using newDate_in_month [OF y100 m, of 15] dim by simp
  have s16: "newDate (Some ?Y) (Some (int ?M)) (Some 16)
              = Some \<lparr>fullYear = ?Y, monthIndex = ?M, dayOfMonth = 16, msOfDay = 0\<rparr>"
    using newDate_in_month [OF y100 m, of 16] dim by simp
  have se: "newDate (Some ?Y) (Some (int ?M)) (Some (int (daysInMonth ?Y ?M)))
              = Some \<lparr>fullYear = ?Y, monthIndex = ?M, dayOfMonth = daysInMonth ?Y ?M, msOfDay = 0\<rparr>"
    using newDate_in_month [OF y100 m, of "daysInMonth ?Y ?M"] dim by simp
  have range: "getTournamentDateRange (getCurrentTournamentId now)
             = Inr (Some \<lparr>fullYear = ?Y, monthIndex = ?M,
                            dayOfMonth = (if ?D \<le> 15 then 1 else 16), msOfDay = 0\<rparr>,
                    Some \<lparr>fullYear = ?Y, monthIndex = ?M,
                            dayOfMonth = (if ?D \<le> 15 then 15 else daysInMonth ?Y ?M),
                            msOfDay = 0\<rparr>)"
    by (simp add: getTournamentDateRange_def tournamentId_split [OF y m] Let_def py
                  parseInt_month [OF m] parseInt_half newDate_day_zero [OF y100 m]
                  getDate_def s1 s15 s16 se)
  have le: "dateLE \<lparr>fullYear = ?Y, monthIndex = ?M,
                     dayOfMonth = (if ?D \<le> 15 then 1 else 16), msOfDay = 0\<rparr> now"
    "dateLE now \<lparr>fullYear = ?Y, monthIndex = ?M,
                   dayOfMonth = (if ?D \<le> 15 then 15 else daysInMonth ?Y ?M),
                   msOfDay = 0\<rparr>
       \<longleftrightarrow> ?D < (if ?D \<le> 15 then 15 else daysInMonth ?Y ?M) \<or> msOfDay now = 0"
    using d by (auto simp: dateLE_def)
  from fmt range le show ?thesis by simp
qed

section \<open>Theorems\<close>

text \<open>
  C1. For the specification's example text, \<open>parseWordleResult\<close> returns game number
  1234, attempts label \<open>4\<close>, \<open>solved = true\<close> and a grid of exactly four rows, whatever
  the analyzer's state; \<open>calculateScore\<close> on that grid gives 21 emoji points, base
  score 300 and total score 321.
\<close>

theorem example_parse_and_score:
  "fst (parseWordleResult st exampleText) = Some exampleResult
   \<and> gameNumber exampleResult = Some 1234
   \<and> actualAttempts exampleResult = str ''4''
   \<and> solved exampleResult = True
   \<and> length (pattern exampleResult) = 4
   \<and> calculateScore (actualAttempts exampleResult) (pattern exampleResult)
       = \<lparr>baseScore = 300, emojiPoints = 21, totalScore = 321\<rparr>"
proof -
  have "fst (parseWordleResult st exampleText) = Some exampleResult"
    using parseWordleResult_state_free [of st exampleText newAnalyzer]
    by (simp add: exampleText_parse)
  moreover have "calculateScore (actualAttempts exampleResult) (pattern exampleResult)
       = \<lparr>baseScore = 300, emojiPoints = 21, totalScore = 321\<rparr>"
    by code_simp
  ultimately show ?thesis
    by (simp add: exampleResult_def exampleGrid_def)
qed

text \<open>
  C3 (as stated, with the bound of six rows) fails: a header followed by seven rows of
  five symbols parses to a grid of seven rows.
\<close>

theorem grid_length_counterexample:
  "fst (parseWordleResult newAnalyzer sevenRowText) \<noteq> None
   \<and> \<not> length (pattern (the (fst (parseWordleResult newAnalyzer sevenRowText)))) \<le> 6"
  by code_simp

text \<open>
  C3 (amended). When \<open>parseWordleResult\<close> succeeds, the grid has at least one row (and
  no upper bound), it is the lines that yield exactly five symbols, in line order, and
  every row consists of exactly five recognized symbols; when no line yields exactly
  five symbols the parse returns \<open>null\<close>.
\<close>

theorem parse_grid_rows:
  "(parseWordleResult st text = (Some r, st') \<longrightarrow>
      1 \<le> length (pattern r)
      \<and> pattern r = map concat (filter (\<lambda>emojis. length emojis = 5)
            (map (\<lambda>line. fst (extractEmojisFromLine st line)) (split 0xA text)))
      \<and> (\<forall>row \<in> set (pattern r).
            length (codePoints row) = 5 \<and> set (codePoints row) \<subseteq> set symbols))
   \<and> ((\<forall>line \<in> set (split 0xA text). length (fst (extractEmojisFromLine st line)) \<noteq> 5)
        \<longrightarrow> fst (parseWordleResult st text) = None)"
proof (intro conjI impI)
  assume p: "parseWordleResult st text = (Some r, st')"
  from parseWordleResult_Some [OF p]
  have rows: "pattern r = retainedRows (split 0xA text)" and ne: "pattern r \<noteq> []"
    by blast+
  from ne show "1 \<le> length (pattern r)"
    by (cases "pattern r") simp_all
  from rows show "pattern r = map concat (filter (\<lambda>emojis. length emojis = 5)
            (map (\<lambda>line. fst (extractEmojisFromLine st line)) (split 0xA text)))"
    by (simp add: retainedRows_def extractEmojisFromLine_eq)
  from rows show "\<forall>row \<in> set (pattern r).
            length (codePoints row) = 5 \<and> set (codePoints row) \<subseteq> set symbols"
    using retainedRows_wellformed [of _ "split 0xA text"] by simp
next
  assume "\<forall>line \<in> set (split 0xA text). length (fst (extractEmojisFromLine st line)) \<noteq> 5"
  then have "retainedRows (split 0xA text) = []"
    by (auto simp: retainedRows_def extractEmojisFromLine_eq filter_empty_conv)
  then show "fst (parseWordleResult st text) = None"
    by (rule parseWordleResult_no_rows)
qed

theorem parse_grid_rows_witness:
  "parseWordleResult newAnalyzer exampleText = (Some exampleResult, newAnalyzer)
   \<and> 1 \<le> length (pattern exampleResult)
   \<and> list_all (\<lambda>line. length (fst (extractEmojisFromLine newAnalyzer line)) \<noteq> 5)
        (split 0xA headerOnlyText)
   \<and> fst (parseWordleResult newAnalyzer headerOnlyText) = None"
proof -
  have q: "list_all (\<lambda>line. length (fst (extractEmojisFromLine newAnalyzer line)) \<noteq> 5)
        (split 0xA headerOnlyText)"
    by code_simp
  from parse_grid_rows [of newAnalyzer exampleText exampleResult newAnalyzer]
  have "1 \<le> length (pattern exampleResult)"
    using exampleText_parse by blast
  moreover from parse_grid_rows [of newAnalyzer headerOnlyText] q
  have "fst (parseWordleResult newAnalyzer headerOnlyText) = None"
    by (simp add: list_all_iff)
  ultimately show ?thesis
    using exampleText_parse q by simp
qed

text \<open>
  C4. The claim: \<open>isWordleResult\<close> accepts every text that \<open>parseWordleResult\<close> parses,
  whatever calls came before. It holds when \<open>lastIndex\<close> is 0 (lemma
  \<open>recognizer_accepts_parseable_text_after_reset\<close>), but \<open>isWordleResult\<close> itself
  moves \<open>lastIndex\<close> and does not reset it. The code at the failing input: after one call on
  \<open>earlierText\<close> (which returns \<open>true\<close> and leaves \<open>lastIndex\<close> at 33),
  \<open>isWordleResult\<close> rejects \<open>laterText\<close>, which is 28 code units long and which
  \<open>parseWordleResult\<close> parses in that same state.
\<close>

theorem recognizer_rejects_parseable_text:
  "fst (isWordleResult newAnalyzer earlierText) = True
   \<and> emojiLastIndex (snd (isWordleResult newAnalyzer earlierText)) = 33
   \<and> fst (parseWordleResult (snd (isWordleResult newAnalyzer earlierText)) laterText) \<noteq> None
   \<and> fst (isWordleResult (snd (isWordleResult newAnalyzer earlierText)) laterText) = False"
  by code_simp

text \<open>
  C5. The claim: \<open>isWordleResult\<close> has no side effect, and two consecutive calls with
  the same text agree. The code at the failing input: on a new analyzer the first call
  with \<open>oneSymbolText\<close> returns \<open>true\<close> and moves \<open>lastIndex\<close> from 0 to 19, and the
  second call with the same text returns \<open>false\<close>.
\<close>

theorem recognizer_consecutive_calls_differ:
  "fst (isWordleResult newAnalyzer oneSymbolText) = True
   \<and> emojiLastIndex (snd (isWordleResult newAnalyzer oneSymbolText)) = 19
   \<and> fst (isWordleResult (snd (isWordleResult newAnalyzer oneSymbolText)) oneSymbolText) = False"
  by code_simp

text \<open>
  C8. The base score is the lookup 1 \<mapsto> 600, 2 \<mapsto> 500, 3 \<mapsto> 400, 4 \<mapsto> 300, 5 \<mapsto> 200,
  6 \<mapsto> 100, X \<mapsto> 0 on the attempts label, whatever the grid, so each adjacent gap is
  exactly 100; a parsed result with label \<open>X\<close> has \<open>solved = false\<close> and base score 0,
  whatever its grid.
\<close>

theorem base_score_table:
  "map (\<lambda>label. baseScore (calculateScore (str label) grid))
       [''1'', ''2'', ''3'', ''4'', ''5'', ''6'', ''X'']
     = [600, 500, 400, 300, 200, 100, 0]
   \<and> baseScore (calculateScore (str ''1'') grid) - baseScore (calculateScore (str ''2'') grid) = 100
   \<and> baseScore (calculateScore (str ''2'') grid) - baseScore (calculateScore (str ''3'') grid) = 100
   \<and> baseScore (calculateScore (str ''3'') grid) - baseScore (calculateScore (str ''4'') grid) = 100
   \<and> baseScore (calculateScore (str ''4'') grid) - baseScore (calculateScore (str ''5'') grid) = 100
   \<and> baseScore (calculateScore (str ''5'') grid) - baseScore (calculateScore (str ''6'') grid) = 100
   \<and> baseScore (calculateScore (str ''6'') grid) - baseScore (calculateScore (str ''X'') grid) = 100
   \<and> (parseWordleResult st text = (Some r, st') \<and> actualAttempts r = str ''X''
        \<longrightarrow> \<not> solved r \<and> baseScore (score r) = 0)"
proof -
  have table: "map (\<lambda>label. lookupOrZero baseScores (str label))
       [''1'', ''2'', ''3'', ''4'', ''5'', ''6'', ''X''] = [600, 500, 400, 300, 200, 100, 0]"
    by (simp add: lookupOrZero_def baseScores_def str_def)
  have failed: "\<not> solved r \<and> baseScore (score r) = 0"
    if "parseWordleResult st text = (Some r, st')" "actualAttempts r = str ''X''"
    using parseWordleResult_Some [OF that(1)] that(2) table
    by (simp add: baseScore_calculateScore)
  from table failed show ?thesis
    by (simp add: baseScore_calculateScore)
qed

theorem base_score_table_witness:
  "parseWordleResult newAnalyzer failedText = (Some failedResult, newAnalyzer)
   \<and> actualAttempts failedResult = str ''X''
   \<and> \<not> solved failedResult \<and> baseScore (score failedResult) = 0"
proof -
  have a: "actualAttempts failedResult = str ''X''"
    by (simp add: failedResult_def)
  from base_score_table [of "[]" newAnalyzer failedText failedResult newAnalyzer]
  have "\<not> solved failedResult \<and> baseScore (score failedResult) = 0"
    using failedText_parse a by blast
  with failedText_parse a show ?thesis by simp
qed

text \<open>
  C9. Each symbol contributes green = 2, yellow = 1 and anything else 0. For every grid
  whose rows have exactly five symbols, the emoji points computed by \<open>calculateScore\<close>
  are at least 0 and at most 10 times the number of rows; for at most six rows they are
  at most 60, hence at most 99, below the gap of 100 between adjacent base scores.
\<close>

theorem emoji_points_bounds:
  "\<forall>row \<in> set grid. length (codePoints row) = 5 \<Longrightarrow>
     lookupOrZero emojiPointsTable e = (if e = green then 2 else if e = yellow then 1 else 0)
     \<and> 0 \<le> emojiPoints (calculateScore a grid)
     \<and> emojiPoints (calculateScore a grid) \<le> 10 * int (length grid)
     \<and> (length grid \<le> 6 \<longrightarrow> emojiPoints (calculateScore a grid) \<le> 60
                             \<and> emojiPoints (calculateScore a grid) \<le> 99)"
proof -
  assume rows: "\<forall>row \<in> set grid. length (codePoints row) = 5"
  have sym: "lookupOrZero emojiPointsTable e
               = (if e = green then 2 else if e = yellow then 1 else 0)"
    by (simp add: lookupOrZero_def emojiPointsTable_def green_def yellow_def black_def
                  white_def blue_def)
  from grid_points_range [OF rows]
  have "0 \<le> emojiPoints (calculateScore a grid)
        \<and> emojiPoints (calculateScore a grid) \<le> 10 * int (length grid)"
    by (simp add: emojiPoints_sum)
  with sym show ?thesis by auto
qed

theorem emoji_points_bounds_witness:
  "list_all (\<lambda>row. length (codePoints row) = 5) exampleGrid
   \<and> length exampleGrid \<le> 6
   \<and> emojiPoints (calculateScore (str ''4'') exampleGrid) = 21
   \<and> 0 \<le> emojiPoints (calculateScore (str ''4'') exampleGrid)
   \<and> emojiPoints (calculateScore (str ''4'') exampleGrid) \<le> 10 * int (length exampleGrid)
   \<and> emojiPoints (calculateScore (str ''4'') exampleGrid) \<le> 99"
proof -
  have h: "list_all (\<lambda>row. length (codePoints row) = 5) exampleGrid"
    by code_simp
  have n: "length exampleGrid \<le> 6"
    by (simp add: exampleGrid_def)
  have v: "emojiPoints (calculateScore (str ''4'') exampleGrid) = 21"
    by code_simp
  from h have "\<forall>row \<in> set exampleGrid. length (codePoints row) = 5"
    by (simp add: list_all_iff)
  from emoji_points_bounds [OF this, of green "str ''4''"] n
  have "0 \<le> emojiPoints (calculateScore (str ''4'') exampleGrid)
        \<and> emojiPoints (calculateScore (str ''4'') exampleGrid) \<le> 10 * int (length exampleGrid)
        \<and> emojiPoints (calculateScore (str ''4'') exampleGrid) \<le> 99"
    by simp
  with h n v show ?thesis by simp
qed

text \<open>
  C2 (as stated) fails on the histogram: for the empty input the distribution has no
  bucket, so the bucket \<open>1\<close> (like every other) does not hold the count 0.
\<close>

theorem empty_stats_distribution_counterexample:
  "distribution (getPlayerStats []) (str ''1'') \<noteq> Some (Some 0)
   \<and> distribution (getPlayerStats []) (str ''1'') = None
   \<and> distribution (getPlayerStats []) (str ''6'') = None
   \<and> distribution (getPlayerStats []) (str ''X'') = None"
  by (simp add: getPlayerStats_def)

text \<open>
  C2 (amended). For the empty input \<open>getPlayerStats\<close> returns, without failing, the
  statistics whose \<open>totalGames\<close>, \<open>solvedGames\<close>, \<open>solveRate\<close>, \<open>averageAttempts\<close>,
  \<open>averageScore\<close> and \<open>totalScore\<close> are all 0 and whose distribution is the empty object.
\<close>

theorem empty_stats:
  "getPlayerStats [] =
     \<lparr>totalGames = 0, solvedGames = 0, solveRate = 0, averageAttempts = Some 0,
      averageScore = 0, totalScore_stats = 0, distribution = Map.empty\<rparr>"
  by (simp add: getPlayerStats_def)

text \<open>
  C6. The claim: the range of a date's period contains the date, the last day of the
  month included. The code at the failing input: on 29 February 2024 the identifier is
  \<open>2024-02-T2\<close> and its range runs from midnight of 16 February to midnight at the
  start of 29 February. The clock reading at noon of that day lies after the end of the
  range; in a zone at UTC+05:30 the stored day \<open>2024-02-29\<close>, read back as 05:30 local
  time, fails the range test of \<open>getTournamentResults\<close>; and in a zone at UTC-05:00 the
  stored day \<open>2024-02-16\<close>, read back as 19:00 of the day before, fails it too.
\<close>

theorem tournament_range_drops_boundary_day:
  "getCurrentTournamentId leapDayNoon = str ''2024-02-T2''
   \<and> getTournamentDateRange (str ''2024-02-T2'')
       = Inr (Some \<lparr>fullYear = 2024, monthIndex = 1, dayOfMonth = 16, msOfDay = 0\<rparr>,
              Some \<lparr>fullYear = 2024, monthIndex = 1, dayOfMonth = 29, msOfDay = 0\<rparr>)
   \<and> dateLE leapDayNoon
         \<lparr>fullYear = 2024, monthIndex = 1, dayOfMonth = 29, msOfDay = 0\<rparr> = False
   \<and> newDateFromString 330 (str ''2024-02-29'')
       = Some \<lparr>fullYear = 2024, monthIndex = 1, dayOfMonth = 29, msOfDay = 19800000\<rparr>
   \<and> resultDateInRange 330 (str ''2024-02-29'')
         (Some \<lparr>fullYear = 2024, monthIndex = 1, dayOfMonth = 16, msOfDay = 0\<rparr>)
         (Some \<lparr>fullYear = 2024, monthIndex = 1, dayOfMonth = 29, msOfDay = 0\<rparr>) = False
   \<and> newDateFromString (- 300) (str ''2024-02-16'')
       = Some \<lparr>fullYear = 2024, monthIndex = 1, dayOfMonth = 15, msOfDay = 68400000\<rparr>
   \<and> resultDateInRange (- 300) (str ''2024-02-16'')
         (Some \<lparr>fullYear = 2024, monthIndex = 1, dayOfMonth = 16, msOfDay = 0\<rparr>)
         (Some \<lparr>fullYear = 2024, monthIndex = 1, dayOfMonth = 29, msOfDay = 0\<rparr>) = False"
  by code_simp

text \<open>
  C7. For every sequence of stored results, the leaderboard lists the entries by total
  score, higher first, and among equal total scores by base score, higher first;
  entries equal in both keep their relative order of the input; no entry is lost or
  added. The text is the header followed by one entry for each index \<open>0, ..., n - 1\<close> of
  the sorted sequence, and the entry at index \<open>i\<close> begins with the label of rank
  \<open>i + 1\<close>: the three medals for the ranks 1, 2, 3 and the decimal number, which reads
  back as the rank, for every rank from 4. Different ranks have different labels, so
  the ranks are 1, 2, ..., n with no gap and no shared rank.
\<close>

theorem leaderboard_order_and_ranks:
  "sorted_wrt (\<lambda>a b. totalScore (score b) < totalScore (score a)
                     \<or> (totalScore (score a) = totalScore (score b)
                         \<and> baseScore (score b) \<le> baseScore (score a)))
              (sortedResults gameResults)
   \<and> filter (\<lambda>r. totalScore (score r) = t \<and> baseScore (score r) = b) (sortedResults gameResults)
       = filter (\<lambda>r. totalScore (score r) = t \<and> baseScore (score r) = b) gameResults
   \<and> mset (sortedResults gameResults) = mset gameResults
   \<and> (gameResults \<noteq> [] \<longrightarrow>
        fst (generateGameLeaderboard gameResults)
          = [0xD83C, 0xDFC6] @ str '' *Wordle ''
            @ numOptToString (gameNumber (sortedResults gameResults ! 0))
            @ str '' Leaderboard*'' @ [0xA, 0xA]
            @ concat (map (\<lambda>index.
                medal (index + 1) @ str '' *'' @ player (sortedResults gameResults ! index)
                @ str ''*'' @ [0xA] @ str ''   ''
                @ (if solved (sortedResults gameResults ! index)
                   then numOptToString (attempts (sortedResults gameResults ! index))
                        @ str ''/6''
                   else str ''X/6'')
                @ str '' - ''
                @ numToString (totalScore (score (sortedResults gameResults ! index)))
                @ str '' points'' @ [0xA] @ str ''   (''
                @ numToString (baseScore (score (sortedResults gameResults ! index)))
                @ str '' base + ''
                @ numToString (emojiPoints (score (sortedResults gameResults ! index)))
                @ str '' emoji)'' @ [0xA, 0xA])
              [0 ..< length gameResults]))
   \<and> medal 1 = [0xD83E, 0xDD47] \<and> medal 2 = [0xD83E, 0xDD48] \<and> medal 3 = [0xD83E, 0xDD49]
   \<and> (4 \<le> rank \<longrightarrow>
        medal rank = numToString (int rank) @ str ''.''
        \<and> parseInt (numToString (int rank)) = Some (int rank))
   \<and> (medal rank1 = medal rank2 \<longrightarrow> rank1 = rank2)"
proof -
  have len: "length (sortedResults gameResults) = length gameResults"
    using mset_arraySort [of compareResults gameResults]
    by (metis sortedResults_def size_mset)
  have "sorted_wrt precedes (sortedResults gameResults)"
    by (rule sorted_sortedResults)
  then have ord: "sorted_wrt (\<lambda>a b. totalScore (score b) < totalScore (score a)
                     \<or> (totalScore (score a) = totalScore (score b)
                         \<and> baseScore (score b) \<le> baseScore (score a)))
              (sortedResults gameResults)"
    by (simp add: precedes_def [abs_def])
  have rendered: "fst (generateGameLeaderboard gameResults)
          = [0xD83C, 0xDFC6] @ str '' *Wordle ''
            @ numOptToString (gameNumber (sortedResults gameResults ! 0))
            @ str '' Leaderboard*'' @ [0xA, 0xA]
            @ concat (map (\<lambda>index.
                medal (index + 1) @ str '' *'' @ player (sortedResults gameResults ! index)
                @ str ''*'' @ [0xA] @ str ''   ''
                @ (if solved (sortedResults gameResults ! index)
                   then numOptToString (attempts (sortedResults gameResults ! index))
                        @ str ''/6''
                   else str ''X/6'')
                @ str '' - ''
                @ numToString (totalScore (score (sortedResults gameResults ! index)))
                @ str '' points'' @ [0xA] @ str ''   (''
                @ numToString (baseScore (score (sortedResults gameResults ! index)))
                @ str '' base + ''
                @ numToString (emojiPoints (score (sortedResults gameResults ! index)))
                @ str '' emoji)'' @ [0xA, 0xA])
              [0 ..< length gameResults])" if ne: "gameResults \<noteq> []"
  proof -
    from ne len have "sortedResults gameResults \<noteq> []" by auto
    then have hd: "leaderboardHeader (sortedResults gameResults)
        = [0xD83C, 0xDFC6] @ str '' *Wordle ''
          @ numOptToString (gameNumber (sortedResults gameResults ! 0))
          @ str '' Leaderboard*'' @ [0xA, 0xA]"
      by (cases "sortedResults gameResults") (simp_all add: leaderboardHeader_def)
    from ne show ?thesis
      using renderEntries_eq [of 0 "sortedResults gameResults"]
      by (simp add: generateGameLeaderboard_def Let_def len hd renderEntry_def)
  qed
  have ms: "mset (sortedResults gameResults) = mset gameResults"
    by (simp add: sortedResults_def mset_arraySort)
  have top: "medal 1 = [0xD83E, 0xDD47] \<and> medal 2 = [0xD83E, 0xDD48]
             \<and> medal 3 = [0xD83E, 0xDD49]"
    by (simp add: medal_def)
  have num: "medal rank = numToString (int rank) @ str ''.''
             \<and> parseInt (numToString (int rank)) = Some (int rank)" if "4 \<le> rank"
    using that parseInt_digitsOf [of rank] by (simp add: medal_def numToString_def)
  have inj: "rank1 = rank2" if "medal rank1 = medal rank2"
    using that by (rule medal_inj)
  from ord rendered ms top num inj show ?thesis
    by (simp add: sortedResults_stable)
qed

theorem leaderboard_order_and_ranks_witness:
  "[carol, alice, dave, bob] \<noteq> []
   \<and> sortedResults [carol, alice, dave, bob] = [alice, bob, carol, dave]
   \<and> filter (\<lambda>r. totalScore (score r) = 321 \<and> baseScore (score r) = 300)
              (sortedResults [carol, alice, dave, bob]) = [alice, bob]
   \<and> fst (generateGameLeaderboard [carol, alice, dave, bob]) = expectedLeaderboard
   \<and> (4::nat) \<le> 4 \<and> medal 4 = str ''4.'' \<and> parseInt (numToString 4) = Some 4
   \<and> medal 2 = medal 2"
proof -
  let ?in = "[carol, alice, dave, bob]"
  have srt: "sortedResults ?in = [alice, bob, carol, dave]"
    by code_simp
  have flt: "filter (\<lambda>r. totalScore (score r) = 321 \<and> baseScore (score r) = 300) ?in
               = [alice, bob]"
    by code_simp
  have ne: "?in \<noteq> []"
    by simp
  have four: "numToString (int 4) @ str ''.'' = str ''4.''" "int 4 = 4"
    by (simp_all add: numToString_def digitsOf_one str_def)
  note inst = leaderboard_order_and_ranks [of ?in 321 300 4 2 2]
  let ?text = "[0xD83C, 0xDFC6] @ str '' *Wordle ''
            @ numOptToString (gameNumber (sortedResults ?in ! 0))
            @ str '' Leaderboard*'' @ [0xA, 0xA]
            @ concat (map (\<lambda>index.
                medal (index + 1) @ str '' *'' @ player (sortedResults ?in ! index)
                @ str ''*'' @ [0xA] @ str ''   ''
                @ (if solved (sortedResults ?in ! index)
                   then numOptToString (attempts (sortedResults ?in ! index))
                        @ str ''/6''
                   else str ''X/6'')
                @ str '' - ''
                @ numToString (totalScore (score (sortedResults ?in ! index)))
                @ str '' points'' @ [0xA] @ str ''   (''
                @ numToString (baseScore (score (sortedResults ?in ! index)))
                @ str '' base + ''
                @ numToString (emojiPoints (score (sortedResults ?in ! index)))
                @ str '' emoji)'' @ [0xA, 0xA])
              [0 ..< length ?in])"
  have ev: "?text = expectedLeaderboard"
    by code_simp
  from inst ne have rendered: "fst (generateGameLeaderboard ?in) = ?text"
    by blast
  from rendered ev have txt_eq: "fst (generateGameLeaderboard ?in) = expectedLeaderboard"
    by (rule trans)
  from inst have "filter (\<lambda>r. totalScore (score r) = 321 \<and> baseScore (score r) = 300)
              (sortedResults ?in) = [alice, bob]"
    unfolding flt by blast
  moreover from inst have "medal 4 = numToString (int 4) @ str ''.''
        \<and> parseInt (numToString (int 4)) = Some (int 4)"
    by simp
  ultimately show ?thesis
    using srt ne txt_eq four by simp
qed

text \<open>
  C10 (as stated) fails: \<open>generateGameLeaderboard\<close> sorts the caller's array in place;
  called with the failed game before the solved one, it leaves the array in the other
  order.
\<close>

theorem leaderboard_input_counterexample:
  "snd (generateGameLeaderboard [carol, alice]) = [alice, carol]
   \<and> [alice, carol] \<noteq> [carol, alice]"
  by code_simp

text \<open>
  C10 (amended). After \<open>generateGameLeaderboard\<close> returns, the caller's sequence holds
  the same stored results, none changed, added or dropped, arranged in leaderboard order
  (the order of C7); it is unchanged exactly when it already was in that order.
\<close>

theorem leaderboard_mutates_input:
  "snd (generateGameLeaderboard gameResults) = sortedResults gameResults
   \<and> mset (snd (generateGameLeaderboard gameResults)) = mset gameResults
   \<and> (snd (generateGameLeaderboard gameResults) = gameResults
        \<longleftrightarrow> sorted_wrt (\<lambda>a b. totalScore (score b) < totalScore (score a)
                     \<or> (totalScore (score a) = totalScore (score b)
                         \<and> baseScore (score b) \<le> baseScore (score a))) gameResults)"
proof -
  have s: "snd (generateGameLeaderboard gameResults) = sortedResults gameResults"
    by (simp add: generateGameLeaderboard_def Let_def sortedResults_def arraySort_def)
  have "sortedResults gameResults = gameResults \<longleftrightarrow> sorted_wrt precedes gameResults"
    using sorted_sortedResults [of gameResults] sortedResults_sorted_id [of gameResults]
    by auto
  moreover have "mset (sortedResults gameResults) = mset gameResults"
    by (simp add: sortedResults_def mset_arraySort)
  ultimately show ?thesis
    using s by (simp add: precedes_def [abs_def])
qed

end
